theory Spec2Isabelle
  imports Main
begin

section \<open>Data model\<close>

text \<open>
  The embedded program is the class \<open>ChatLLMService\<close> of
  \<open>quivr_api/modules/chat_llm_service/chat_llm_service.py\<close>. Record fields carry the
  source's field names behind a short prefix, since several of the source's classes
  share field names (\<open>answer\<close>, \<open>metadata\<close>, \<open>chat_id\<close>, \<open>name\<close>).
\<close>

type_synonym uuid = nat
type_synonym datetime = nat

text \<open>Everything the code can raise. \<open>UnboundLocalError\<close> is Python's own error for
  reading a local variable that no assignment has reached.\<close>

datatype error =
    ModelNotAllowed
  | QuotaExceeded
  | InvocationError
  | PersistenceError
  | UnboundLocalError

text \<open>\<open>UserIdentity\<close>: the fields the service reads.\<close>

record user_identity =
  user_id :: uuid
  email :: string

text \<open>The user's settings: the ceiling that \<open>update_user_usage\<close> enforces.\<close>

record user_settings =
  monthly_chat_credits :: nat

text \<open>The resolved model (\<open>model_to_use\<close>): \<open>name\<close>, \<open>price\<close>, \<open>max_input\<close>,
  \<open>max_output\<close>.\<close>

record llm_model =
  m_name :: string
  m_price :: nat
  m_max_input :: nat
  m_max_output :: nat

text \<open>What \<open>model_service.get_model\<close> returns, as far as the service reads it.\<close>

record model_description =
  description :: string
  image_url :: string
  display_name :: string

text \<open>\<open>ChatLLMMetadata\<close>, the descriptive model block.\<close>

record chat_llm_metadata =
  clm_name :: string
  clm_description :: string
  clm_image_url :: string
  clm_display_name :: string
  clm_brain_id :: string
  clm_brain_name :: string

text \<open>\<open>RAGResponseMetadata\<close>: the provider's own fields, kept as key/value pairs, and
  the optional model block \<open>metadata_model\<close>.\<close>

record rag_response_metadata =
  provider_fields :: "(string \<times> string) list"
  metadata_model :: "chat_llm_metadata option"

text \<open>A metadata dictionary is either the literal \<open>{}\<close> or the \<open>model_dump()\<close> of a
  \<open>RAGResponseMetadata\<close>.\<close>

datatype metadata_dict = EmptyDict | Dump rag_response_metadata

definition model_dump :: "rag_response_metadata \<Rightarrow> metadata_dict" where
  "model_dump md = Dump md"

text \<open>\<open>RAGResponseMetadata(**d)\<close>: the fields of the dictionary, defaults where a key is
  absent.\<close>

fun rag_response_metadata_of :: "metadata_dict \<Rightarrow> rag_response_metadata" where
  "rag_response_metadata_of EmptyDict = \<lparr>provider_fields = [], metadata_model = None\<rparr>"
| "rag_response_metadata_of (Dump md) = md"

text \<open>\<open>ParsedRAGResponse\<close>: the code tests \<open>metadata\<close> for presence before using it
  (\<open>if parsed_response.metadata\<close>, \<open>if answer.metadata else {}\<close>), so it is optional.\<close>

record parsed_rag_response =
  pr_answer :: string
  pr_metadata :: "rag_response_metadata option"

text \<open>\<open>ParsedRAGChunkResponse\<close>: one chunk of a stream; its metadata is read without a
  test.\<close>

record parsed_rag_chunk_response =
  chunk_answer :: string
  chunk_metadata :: rag_response_metadata
  last_chunk :: bool

text \<open>\<open>CreateChatHistory\<close>, the argument of \<open>chat_service.update_chat_history\<close>.\<close>

record create_chat_history =
  cch_chat_id :: uuid
  cch_user_message :: string
  cch_assistant :: string
  cch_brain_id :: "uuid option"
  cch_prompt_id :: "uuid option"
  cch_metadata :: metadata_dict

text \<open>A persisted entry of the chat history (a Turn).\<close>

record chat_entry =
  ce_chat_id :: uuid
  ce_user_message :: string
  ce_assistant :: string
  ce_metadata :: metadata_dict
  ce_message_id :: uuid
  ce_message_time :: datetime

text \<open>\<open>GetChatHistoryOutput\<close>, the record handed to the caller.\<close>

record get_chat_history_output =
  out_chat_id :: uuid
  out_user_message :: string
  out_assistant :: string
  out_message_time :: datetime
  out_prompt_title :: "string option"
  out_brain_name :: "string option"
  out_message_id :: uuid
  out_brain_id :: "uuid option"
  out_metadata :: metadata_dict

text \<open>The dictionary \<open>message_metadata\<close> of \<open>generate_answer_stream\<close>.\<close>

record message_metadata =
  mm_chat_id :: uuid
  mm_message_id :: uuid
  mm_user_message :: string
  mm_message_time :: datetime
  mm_prompt_title :: "string option"
  mm_brain_name :: "string option"
  mm_brain_id :: "uuid option"

text \<open>\<open>LLMEndpointConfig\<close> as \<open>build_llm\<close> fills it. The temperature is the library's
  own default constant, the same in every call, and is left to the endpoint.\<close>

record llm_endpoint_config =
  cfg_model :: string
  cfg_llm_base_url :: "string option"
  cfg_llm_api_key :: "string option"
  cfg_max_input :: nat
  cfg_max_tokens :: nat

text \<open>\<open>ChatHistoryCore(brain_id=None, chat_id=...)\<close> with the appended messages, each a
  (role, content) pair.\<close>

record chat_history_core =
  chc_brain_id :: "uuid option"
  chc_chat_id :: uuid
  chc_msgs :: "(string \<times> string) list"

text \<open>What the provider's stream delivers next: a chunk, or a failure raised from the
  production of the sequence.\<close>

datatype stream_item = Chunk parsed_rag_chunk_response | ProviderFailure

text \<open>The line \<open>f"data: {record.model_dump_json()}"\<close> that the generator yields.\<close>

datatype sse = Data get_chat_history_output

text \<open>The external effects, logged in program order.\<close>

datatype event =
    Ev_check_usage uuid string
  | Ev_answer string
  | Ev_answer_astream string
  | Ev_save_answer create_chat_history
  | Ev_yield sse

text \<open>The collaborators that the service only reads or calls as functions: the settings
  object, \<open>compute_cost\<close>, \<open>generate_uuid_from_string\<close> (with the \<open>str\<close> applied to its
  result), \<open>model_service.get_model\<close>, \<open>format_chat_history\<close> and the two call surfaces
  of the endpoint. None of them is in the source file; each is a parameter. The
  synchronous call either raises or returns a response; the streaming call delivers a
  finite sequence of items.\<close>

text \<open>Modelled from the spec: \<open>generate_uuid_from_string\<close> of
  \<open>quivr_api.packages.utils.uuid_generator\<close> is missing. Metadata Enricher: the synthetic
  id is a stable deterministic hash over the model name, independent of process, time
  or call order; so the field \<open>generate_uuid_from_string\<close> is a function of the string it
  is given and of nothing else.\<close>

record env =
  ollama_api_base_url :: "string option"
  compute_cost :: "llm_model \<Rightarrow> llm_model list \<Rightarrow> nat"
  generate_uuid_from_string :: "string \<Rightarrow> string"
  get_model :: "string \<Rightarrow> model_description"
  format_chat_history :: "chat_entry list \<Rightarrow> (string \<times> string) list"
  answer :: "llm_endpoint_config \<Rightarrow> string \<Rightarrow> chat_history_core \<Rightarrow> error + parsed_rag_response"
  answer_astream :: "llm_endpoint_config \<Rightarrow> string \<Rightarrow> chat_history_core \<Rightarrow> stream_item list"

text \<open>The mutable world: the usage backend (settings, models and ledger per user), the
  chat storage, the sources of fresh identifiers and of time, and the log of effects.\<close>

record world =
  settings_of :: "uuid \<Rightarrow> user_settings"
  models_of :: "uuid \<Rightarrow> llm_model list"
  usage :: "uuid \<Rightarrow> nat"
  history :: "chat_entry list"
  storage_up :: bool
  next_uuid :: uuid
  clock :: datetime
  trace :: "event list"

text \<open>The instance state of \<open>ChatLLMService\<close> that \<open>__init__\<close> sets.\<close>

record chat_llm_service =
  current_user :: user_identity
  chat_id :: uuid
  model_to_use :: llm_model

section \<open>Collaborators\<close>

definition log_event :: "event \<Rightarrow> world \<Rightarrow> world" where
  "log_event e w = w\<lparr>trace := trace w @ [e]\<rparr>"

definition uuid4 :: "world \<Rightarrow> uuid \<times> world" where
  "uuid4 w = (next_uuid w, w\<lparr>next_uuid := Suc (next_uuid w)\<rparr>)"

definition find_model_and_generate_metadata ::
  "string \<Rightarrow> user_settings \<Rightarrow> llm_model list \<Rightarrow> error + llm_model" where
  \<comment> \<open>Modelled from the spec: \<open>find_model_and_generate_metadata\<close> of
     \<open>quivr_api.modules.chat.controller.chat.utils\<close> is missing. Usage Guard: fails with
     \<open>ModelNotAllowed\<close> if the model name is absent from the allow-list (the model
     descriptors fetched for the user); otherwise yields the selection matching the
     requested name.\<close>
  "find_model_and_generate_metadata model_name user_settings all_models =
     (case find (\<lambda>m. m_name m = model_name) all_models of
        None \<Rightarrow> Inl ModelNotAllowed
      | Some m \<Rightarrow> Inr m)"

definition update_user_usage ::
  "uuid \<Rightarrow> user_settings \<Rightarrow> nat \<Rightarrow> world \<Rightarrow> (error + unit) \<times> world" where
  \<comment> \<open>Modelled from the spec: \<open>update_user_usage\<close> of
     \<open>quivr_api.modules.chat.controller.chat.utils\<close> is missing. Usage Guard: fails with
     \<open>QuotaExceeded\<close> if the rolling usage plus this cost would exceed the user's
     ceiling; on success records the cost against the user's ledger; records nothing on
     failure.\<close>
  "update_user_usage uid user_settings cost w =
     (if monthly_chat_credits user_settings < usage w uid + cost
      then (Inl QuotaExceeded, w)
      else (Inr (), w\<lparr>usage := (usage w)(uid := usage w uid + cost)\<rparr>))"

definition update_chat_history ::
  "create_chat_history \<Rightarrow> world \<Rightarrow> (error + chat_entry) \<times> world" where
  \<comment> \<open>Modelled from the spec: \<open>ChatService.update_chat_history\<close> is missing. Answer
     Persister: generates a new turn id and timestamp and appends the turn to the
     history; fails with \<open>PersistenceError\<close>.\<close>
  "update_chat_history c w =
     (if \<not> storage_up w then (Inl PersistenceError, w)
      else
        (case uuid4 w of (mid, w1) \<Rightarrow>
          (let turn = \<lparr>ce_chat_id = cch_chat_id c,
                       ce_user_message = cch_user_message c,
                       ce_assistant = cch_assistant c,
                       ce_metadata = cch_metadata c,
                       ce_message_id = mid,
                       ce_message_time = clock w1\<rparr>
           in (Inr turn, w1\<lparr>history := history w1 @ [turn]\<rparr>))))"

definition get_chat_history :: "uuid \<Rightarrow> world \<Rightarrow> chat_entry list" where
  \<comment> \<open>Modelled from the spec: \<open>ChatService.get_chat_history\<close> is missing. The ordered
     turns of the session.\<close>
  "get_chat_history cid w = filter (\<lambda>t. ce_chat_id t = cid) (history w)"

section \<open>The service\<close>

text \<open>\<open>check_and_update_user_usage\<close>: settings and models are fetched, the model is
  resolved, the cost computed, the usage updated. A raise of an earlier step skips the
  later ones.\<close>

definition check_and_update_user_usage ::
  "env \<Rightarrow> user_identity \<Rightarrow> string \<Rightarrow> world \<Rightarrow> (error + llm_model) \<times> world" where
  "check_and_update_user_usage e user model_name w =
     (let w0 = log_event (Ev_check_usage (user_id user) model_name) w;
          user_settings = settings_of w0 (user_id user);
          all_models = models_of w0 (user_id user)
      in case find_model_and_generate_metadata model_name user_settings all_models of
           Inl err \<Rightarrow> (Inl err, w0)
         | Inr m \<Rightarrow>
             (let cost = compute_cost e m all_models
              in case update_user_usage (user_id user) user_settings cost w0 of
                   (Inl err, w1) \<Rightarrow> (Inl err, w1)
                 | (Inr u, w1) \<Rightarrow> (Inr m, w1)))"

text \<open>\<open>__init__\<close>: the instance exists only if the usage check returned.\<close>

definition init ::
  "env \<Rightarrow> user_identity \<Rightarrow> string \<Rightarrow> uuid \<Rightarrow> world \<Rightarrow> (error + chat_llm_service) \<times> world" where
  "init e user model_name cid w =
     (case check_and_update_user_usage e user model_name w of
        (Inl err, w1) \<Rightarrow> (Inl err, w1)
      | (Inr m, w1) \<Rightarrow>
          (Inr \<lparr>current_user = user, chat_id = cid, model_to_use = m\<rparr>, w1))"

definition build_chat_history ::
  "env \<Rightarrow> chat_llm_service \<Rightarrow> chat_entry list \<Rightarrow> chat_history_core" where
  "build_chat_history e svc hist =
     \<lparr>chc_brain_id = None, chc_chat_id = chat_id svc, chc_msgs = format_chat_history e hist\<rparr>"

definition build_llm :: "env \<Rightarrow> chat_llm_service \<Rightarrow> llm_endpoint_config" where
  "build_llm e svc =
     (let ollama_url =
            (case ollama_api_base_url e of
               None \<Rightarrow> None
             | Some url \<Rightarrow>
                 if url \<noteq> [] \<and> take 6 (m_name (model_to_use svc)) = ''ollama''
                 then Some url else None)
      in \<lparr>cfg_model = m_name (model_to_use svc),
          cfg_llm_base_url = ollama_url,
          cfg_llm_api_key =
            (case ollama_url of
               None \<Rightarrow> None
             | Some url \<Rightarrow> if url \<noteq> [] then Some ''abc-123'' else None),
          cfg_max_input = m_max_input (model_to_use svc),
          cfg_max_tokens = m_max_output (model_to_use svc)\<rparr>)"

definition save_answer ::
  "chat_llm_service \<Rightarrow> string \<Rightarrow> parsed_rag_response \<Rightarrow> world \<Rightarrow> (error + chat_entry) \<times> world" where
  "save_answer svc question ans w =
     (let c = \<lparr>cch_chat_id = chat_id svc,
               cch_user_message = question,
               cch_assistant = pr_answer ans,
               cch_brain_id = None,
               cch_prompt_id = None,
               cch_metadata =
                 (case pr_metadata ans of Some md \<Rightarrow> model_dump md | None \<Rightarrow> EmptyDict)\<rparr>
      in update_chat_history c (log_event (Ev_save_answer c) w))"

definition generate_answer ::
  "env \<Rightarrow> chat_llm_service \<Rightarrow> string \<Rightarrow> world \<Rightarrow> (error + get_chat_history_output) \<times> world" where
  "generate_answer e svc question w =
     (let chat_llm = build_llm e svc;
          hist = get_chat_history (chat_id svc) w;
          model_metadata = get_model e (m_name (model_to_use svc));
          chat_history = build_chat_history e svc hist;
          w1 = log_event (Ev_answer question) w
      in case answer e chat_llm question chat_history of
           Inl err \<Rightarrow> (Inl err, w1)
         | Inr parsed_response0 \<Rightarrow>
             (let parsed_response =
                    (case pr_metadata parsed_response0 of
                       None \<Rightarrow> parsed_response0
                     | Some md \<Rightarrow>
                         parsed_response0\<lparr>pr_metadata := Some (md\<lparr>metadata_model := Some
                           \<lparr>clm_name = m_name (model_to_use svc),
                            clm_description = description model_metadata,
                            clm_image_url = image_url model_metadata,
                            clm_display_name = display_name model_metadata,
                            clm_brain_id = generate_uuid_from_string e (m_name (model_to_use svc)),
                            clm_brain_name = m_name (model_to_use svc)\<rparr>\<rparr>)\<rparr>)
              in case save_answer svc question parsed_response w1 of
                   (Inl err, w2) \<Rightarrow> (Inl err, w2)
                 | (Inr new_chat_entry, w2) \<Rightarrow>
                     (Inr \<lparr>out_chat_id = chat_id svc,
                           out_user_message = question,
                           out_assistant = pr_answer parsed_response,
                           out_message_time = ce_message_time new_chat_entry,
                           out_prompt_title = None,
                           out_brain_name = None,
                           out_message_id = ce_message_id new_chat_entry,
                           out_brain_id = None,
                           out_metadata =
                             (case pr_metadata parsed_response of
                                Some md \<Rightarrow> model_dump md | None \<Rightarrow> EmptyDict)\<rparr>, w2)))"

section \<open>The streaming generator\<close>

text \<open>
  \<open>generate_answer_stream\<close> is an async generator: calling it runs nothing, and each
  pull of the consumer runs its body up to the next \<open>yield\<close>. The generator object is
  therefore a state: not yet started, suspended at the \<open>yield\<close> inside the loop (with its
  local variables and what the provider has still to deliver), suspended at the last
  \<open>yield\<close>, or finished.
\<close>

record gen_locals =
  g_question :: string
  g_model_metadata :: model_description
  g_message_metadata :: message_metadata
  g_full_answer :: string
  g_response :: "parsed_rag_chunk_response option"

datatype generator =
    Created string
  | InLoop gen_locals "stream_item list"
  | AtFinalYield
  | Finished

datatype outcome = Yielded sse | StopAsyncIteration | Raised error

definition streamed_record ::
  "message_metadata \<Rightarrow> string \<Rightarrow> metadata_dict \<Rightarrow> get_chat_history_output" where
  \<comment> \<open>\<open>GetChatHistoryOutput(assistant=..., metadata=..., **message_metadata)\<close>\<close>
  "streamed_record mm assistant md =
     \<lparr>out_chat_id = mm_chat_id mm,
      out_user_message = mm_user_message mm,
      out_assistant = assistant,
      out_message_time = mm_message_time mm,
      out_prompt_title = mm_prompt_title mm,
      out_brain_name = mm_brain_name mm,
      out_message_id = mm_message_id mm,
      out_brain_id = mm_brain_id mm,
      out_metadata = md\<rparr>"

text \<open>The code after the loop. It reads the loop variable \<open>response\<close>, which is unbound
  when the loop body never ran.\<close>

definition finalize ::
  "env \<Rightarrow> chat_llm_service \<Rightarrow> gen_locals \<Rightarrow> world \<Rightarrow> (outcome \<times> generator) \<times> world" where
  "finalize e svc L w =
     (case g_response L of
        None \<Rightarrow> ((Raised UnboundLocalError, Finished), w)
      | Some response \<Rightarrow>
          (let streamed_chat_history =
                 streamed_record (g_message_metadata L) (g_full_answer L)
                   (model_dump (chunk_metadata response));
               metadata =
                 (rag_response_metadata_of (out_metadata streamed_chat_history))
                   \<lparr>metadata_model := Some
                      \<lparr>clm_name = m_name (model_to_use svc),
                       clm_description = description (g_model_metadata L),
                       clm_image_url = image_url (g_model_metadata L),
                       clm_display_name = display_name (g_model_metadata L),
                       clm_brain_id = generate_uuid_from_string e (m_name (model_to_use svc)),
                       clm_brain_name = m_name (model_to_use svc)\<rparr>\<rparr>;
               streamed_final = streamed_chat_history\<lparr>out_metadata := model_dump metadata\<rparr>
           in case save_answer svc (g_question L)
                     \<lparr>pr_answer = g_full_answer L, pr_metadata = Some metadata\<rparr> w of
                (Inl err, w1) \<Rightarrow> ((Raised err, Finished), w1)
              | (Inr saved, w1) \<Rightarrow>
                  ((Yielded (Data streamed_final), AtFinalYield),
                   log_event (Ev_yield (Data streamed_final)) w1)))"

text \<open>The \<open>async for\<close> loop, from the point where the next item is requested, up to the
  next \<open>yield\<close>, the end of the generator or a raise.\<close>

fun stream_loop ::
  "env \<Rightarrow> chat_llm_service \<Rightarrow> gen_locals \<Rightarrow> stream_item list \<Rightarrow> world \<Rightarrow>
     (outcome \<times> generator) \<times> world" where
  "stream_loop e svc L [] w = finalize e svc L w"
| "stream_loop e svc L (ProviderFailure # rest) w = ((Raised InvocationError, Finished), w)"
| "stream_loop e svc L (Chunk response # rest) w =
     (if \<not> last_chunk response then
        (let streamed_chat_history =
               streamed_record (g_message_metadata L) (chunk_answer response)
                 (model_dump (chunk_metadata response));
             L1 = L\<lparr>g_response := Some response,
                    g_full_answer := g_full_answer L @ chunk_answer response\<rparr>
         in ((Yielded (Data streamed_chat_history), InLoop L1 rest),
             log_event (Ev_yield (Data streamed_chat_history)) w))
      else
        (let L1 = L\<lparr>g_response := Some response,
                    g_full_answer :=
                      (if g_full_answer L = [] then g_full_answer L @ chunk_answer response
                       else g_full_answer L)\<rparr>
         in stream_loop e svc L1 rest w))"

text \<open>The stream that \<open>chat_llm.answer_astream(question, chat_history)\<close> delivers when
  the generator is started in world \<open>w\<close>.\<close>

definition provider_stream ::
  "env \<Rightarrow> chat_llm_service \<Rightarrow> string \<Rightarrow> world \<Rightarrow> stream_item list" where
  "provider_stream e svc question w =
     answer_astream e (build_llm e svc) question
       (build_chat_history e svc (get_chat_history (chat_id svc) w))"

text \<open>The code before the loop: the locals of the generator as the loop finds them, the
  provider's stream, and the world after \<open>uuid4()\<close> and the call of the endpoint.\<close>

definition start ::
  "env \<Rightarrow> chat_llm_service \<Rightarrow> string \<Rightarrow> world \<Rightarrow> (gen_locals \<times> stream_item list) \<times> world" where
  "start e svc question w =
     (let model_metadata = get_model e (m_name (model_to_use svc))
      in case uuid4 w of (mid, w1) \<Rightarrow>
        ((\<lparr>g_question = question,
           g_model_metadata = model_metadata,
           g_message_metadata =
             \<lparr>mm_chat_id = chat_id svc,
              mm_message_id = mid,
              mm_user_message = question,
              mm_message_time = clock w1,
              mm_prompt_title = None,
              mm_brain_name = None,
              mm_brain_id = None\<rparr>,
           g_full_answer = [],
           g_response = None\<rparr>,
          provider_stream e svc question w),
         log_event (Ev_answer_astream question) w1))"

text \<open>One pull of the consumer (\<open>__anext__\<close>).\<close>

definition anext ::
  "env \<Rightarrow> chat_llm_service \<Rightarrow> generator \<Rightarrow> world \<Rightarrow> (outcome \<times> generator) \<times> world" where
  "anext e svc g w =
     (case g of
        Created question \<Rightarrow>
          (case start e svc question w of ((L, items), w1) \<Rightarrow> stream_loop e svc L items w1)
      | InLoop L rest \<Rightarrow> stream_loop e svc L rest w
      | AtFinalYield \<Rightarrow> ((StopAsyncIteration, Finished), w)
      | Finished \<Rightarrow> ((StopAsyncIteration, Finished), w))"

definition generate_answer_stream :: "chat_llm_service \<Rightarrow> string \<Rightarrow> generator" where
  "generate_answer_stream svc question = Created question"

text \<open>A consumer that pulls at most \<open>n\<close> times and stops at the first pull that does not
  yield. It returns what each pull gave, in order.\<close>

fun consume ::
  "env \<Rightarrow> chat_llm_service \<Rightarrow> nat \<Rightarrow> generator \<Rightarrow> world \<Rightarrow> (outcome list \<times> generator) \<times> world" where
  "consume e svc 0 g w = (([], g), w)"
| "consume e svc (Suc n) g w =
     (case anext e svc g w of
        ((Yielded r, g1), w1) \<Rightarrow>
          (case consume e svc n g1 w1 of ((rs, g2), w2) \<Rightarrow> ((Yielded r # rs, g2), w2))
      | ((other, g1), w1) \<Rightarrow> (([other], g1), w1))"

section \<open>Notions used in the statements\<close>

fun is_check_usage :: "event \<Rightarrow> bool" where
  "is_check_usage (Ev_check_usage u n) = True"
| "is_check_usage ev = False"

fun is_save_answer :: "event \<Rightarrow> bool" where
  "is_save_answer (Ev_save_answer c) = True"
| "is_save_answer ev = False"

fun is_yield :: "event \<Rightarrow> bool" where
  "is_yield (Ev_yield r) = True"
| "is_yield ev = False"

fun is_llm_call :: "event \<Rightarrow> bool" where
  "is_llm_call (Ev_answer q) = True"
| "is_llm_call (Ev_answer_astream q) = True"
| "is_llm_call ev = False"

text \<open>The assistant text that a pull handed to the consumer, if it yielded.\<close>

fun assistant_of :: "outcome \<Rightarrow> string option" where
  "assistant_of (Yielded (Data r)) = Some (out_assistant r)"
| "assistant_of other = None"

text \<open>The record that the loop yields for a non-terminal chunk.\<close>

definition partial_record :: "message_metadata \<Rightarrow> parsed_rag_chunk_response \<Rightarrow> sse" where
  "partial_record mm c =
     Data (streamed_record mm (chunk_answer c) (model_dump (chunk_metadata c)))"

text \<open>The locals after the loop body ran for each chunk of a list of non-terminal
  chunks.\<close>

fun after_chunks :: "gen_locals \<Rightarrow> parsed_rag_chunk_response list \<Rightarrow> gen_locals" where
  "after_chunks L [] = L"
| "after_chunks L (c # cs) =
     after_chunks (L\<lparr>g_response := Some c, g_full_answer := g_full_answer L @ chunk_answer c\<rparr>) cs"

text \<open>The descriptive model block that both paths build.\<close>

definition model_block :: "env \<Rightarrow> chat_llm_service \<Rightarrow> chat_llm_metadata" where
  "model_block e svc =
     \<lparr>clm_name = m_name (model_to_use svc),
      clm_description = description (get_model e (m_name (model_to_use svc))),
      clm_image_url = image_url (get_model e (m_name (model_to_use svc))),
      clm_display_name = display_name (get_model e (m_name (model_to_use svc))),
      clm_brain_id = generate_uuid_from_string e (m_name (model_to_use svc)),
      clm_brain_name = m_name (model_to_use svc)\<rparr>"

text \<open>The brain ids of the model blocks in a list of persisted turns.\<close>

fun brain_ids :: "chat_entry list \<Rightarrow> string list" where
  "brain_ids [] = []"
| "brain_ids (t # ts) =
     (case ce_metadata t of
        EmptyDict \<Rightarrow> brain_ids ts
      | Dump md \<Rightarrow>
          (case metadata_model md of
             None \<Rightarrow> brain_ids ts
           | Some b \<Rightarrow> clm_brain_id b # brain_ids ts))"

text \<open>A call of either path on an instance: the synchronous one, or the streaming one
  with a consumer that pulls at most \<open>n\<close> times. \<open>run\<close> gives the world it leaves.\<close>

datatype call = Sync string | Stream nat string

fun run :: "env \<Rightarrow> chat_llm_service \<Rightarrow> call \<Rightarrow> world \<Rightarrow> world" where
  "run e svc (Sync question) w = snd (generate_answer e svc question w)"
| "run e svc (Stream n question) w =
     snd (consume e svc n (generate_answer_stream svc question) w)"

text \<open>The \<open>CreateChatHistory\<close> that \<open>save_answer\<close> hands to the chat service.\<close>

definition save_request :: "chat_llm_service \<Rightarrow> string \<Rightarrow> parsed_rag_response \<Rightarrow> create_chat_history" where
  "save_request svc question ans =
     \<lparr>cch_chat_id = chat_id svc,
      cch_user_message = question,
      cch_assistant = pr_answer ans,
      cch_brain_id = None,
      cch_prompt_id = None,
      cch_metadata = (case pr_metadata ans of Some md \<Rightarrow> model_dump md | None \<Rightarrow> EmptyDict)\<rparr>"

text \<open>What the code after the loop computes from the locals and the last response: the
  final metadata, the final record and the answer it saves.\<close>

definition final_metadata :: "env \<Rightarrow> chat_llm_service \<Rightarrow> gen_locals \<Rightarrow> parsed_rag_chunk_response \<Rightarrow> rag_response_metadata" where
  "final_metadata e svc L response =
     (chunk_metadata response)\<lparr>metadata_model := Some
        \<lparr>clm_name = m_name (model_to_use svc),
         clm_description = description (g_model_metadata L),
         clm_image_url = image_url (g_model_metadata L),
         clm_display_name = display_name (g_model_metadata L),
         clm_brain_id = generate_uuid_from_string e (m_name (model_to_use svc)),
         clm_brain_name = m_name (model_to_use svc)\<rparr>\<rparr>"

definition final_record :: "env \<Rightarrow> chat_llm_service \<Rightarrow> gen_locals \<Rightarrow> parsed_rag_chunk_response \<Rightarrow> sse" where
  "final_record e svc L response =
     Data (streamed_record (g_message_metadata L) (g_full_answer L)
             (model_dump (final_metadata e svc L response)))"

definition final_answer :: "env \<Rightarrow> chat_llm_service \<Rightarrow> gen_locals \<Rightarrow> parsed_rag_chunk_response \<Rightarrow> parsed_rag_response" where
  "final_answer e svc L response =
     \<lparr>pr_answer = g_full_answer L, pr_metadata = Some (final_metadata e svc L response)\<rparr>"

text \<open>The locals after the loop body ran for a terminal chunk.\<close>

definition after_terminal :: "gen_locals \<Rightarrow> parsed_rag_chunk_response \<Rightarrow> gen_locals" where
  "after_terminal L t =
     L\<lparr>g_response := Some t,
       g_full_answer :=
         (if g_full_answer L = [] then g_full_answer L @ chunk_answer t else g_full_answer L)\<rparr>"

text \<open>The response of the synchronous path after its enrichment step.\<close>

definition enriched :: "env \<Rightarrow> chat_llm_service \<Rightarrow> parsed_rag_response \<Rightarrow> parsed_rag_response" where
  "enriched e svc resp =
     (case pr_metadata resp of
        None \<Rightarrow> resp
      | Some md \<Rightarrow> resp\<lparr>pr_metadata := Some (md\<lparr>metadata_model := Some (model_block e svc)\<rparr>)\<rparr>)"

section \<open>A concrete setting\<close>

definition demo_user :: user_identity where
  "demo_user = \<lparr>user_id = 7, email = ''u@example.org''\<rparr>"

definition demo_model :: llm_model where
  "demo_model = \<lparr>m_name = ''model-x'', m_price = 1, m_max_input = 4000, m_max_output = 1000\<rparr>"

definition demo_chunk :: "string \<Rightarrow> bool \<Rightarrow> parsed_rag_chunk_response" where
  "demo_chunk txt fin =
     \<lparr>chunk_answer = txt,
      chunk_metadata = \<lparr>provider_fields = [], metadata_model = None\<rparr>,
      last_chunk = fin\<rparr>"

definition demo_env :: env where
  "demo_env =
     \<lparr>ollama_api_base_url = None,
      compute_cost = (\<lambda>m ms. m_price m),
      generate_uuid_from_string = (\<lambda>s. ''id-'' @ s),
      get_model = (\<lambda>s. \<lparr>description = ''d'', image_url = ''i'', display_name = ''n''\<rparr>),
      format_chat_history =
        (\<lambda>ts. concat (map (\<lambda>t. [(''user'', ce_user_message t),
                                  (''assistant'', ce_assistant t)]) ts)),
      answer = (\<lambda>cfg q h. Inr \<lparr>pr_answer = ''4'',
                 pr_metadata = Some \<lparr>provider_fields = [], metadata_model = None\<rparr>\<rparr>),
      answer_astream = (\<lambda>cfg q h.
        [Chunk (demo_chunk ''a'' False), Chunk (demo_chunk ''b'' False),
         Chunk (demo_chunk [] True)])\<rparr>"

definition demo_world :: world where
  "demo_world =
     \<lparr>settings_of = (\<lambda>u. \<lparr>monthly_chat_credits = 10\<rparr>),
      models_of = (\<lambda>u. [demo_model]),
      usage = (\<lambda>u. 0),
      history = [],
      storage_up = True,
      next_uuid = 100,
      clock = 5,
      trace = []\<rparr>"

definition demo_svc :: chat_llm_service where
  "demo_svc = \<lparr>current_user = demo_user, chat_id = 3, model_to_use = demo_model\<rparr>"

text \<open>The same setting with an endpoint that fails: at once on the synchronous call,
  after one chunk on the streaming call.\<close>

definition failing_env :: env where
  "failing_env = demo_env\<lparr>answer := (\<lambda>cfg q h. Inl InvocationError),
      answer_astream := (\<lambda>cfg q h. [Chunk (demo_chunk ''a'' False), ProviderFailure])\<rparr>"

text \<open>The same setting with a synchronous endpoint whose response carries no metadata.\<close>

definition bare_env :: env where
  "bare_env = demo_env\<lparr>answer := (\<lambda>cfg q h. Inr \<lparr>pr_answer = ''4'', pr_metadata = None\<rparr>)\<rparr>"

section \<open>Effects of the collaborators and of one pull\<close>

lemma history_log_event [simp]: "history (log_event ev w) = history w"
  and trace_log_event [simp]: "trace (log_event ev w) = trace w @ [ev]"
  and usage_log_event [simp]: "usage (log_event ev w) = usage w"
  and storage_log_event [simp]: "storage_up (log_event ev w) = storage_up w"
  and models_log_event [simp]: "models_of (log_event ev w) = models_of w"
  and settings_log_event [simp]: "settings_of (log_event ev w) = settings_of w"
  by (simp_all add: log_event_def)

lemma save_answer_Inr:
  assumes "save_answer svc q a w = (Inr t, w')"
  shows "history w' = history w @ [t]"
    and "trace w' = trace w @ [Ev_save_answer (save_request svc q a)]"
    and "usage w' = usage w"
    and "ce_assistant t = pr_answer a"
    and "ce_user_message t = q"
    and "ce_metadata t = (case pr_metadata a of Some md \<Rightarrow> model_dump md | None \<Rightarrow> EmptyDict)"
  using assms
  by (auto simp: save_answer_def save_request_def update_chat_history_def uuid4_def Let_def
      split: if_splits)

lemma save_answer_Inl:
  assumes "save_answer svc q a w = (Inl err, w')"
  shows "history w' = history w"
    and "trace w' = trace w @ [Ev_save_answer (save_request svc q a)]"
    and "usage w' = usage w"
    and "err = PersistenceError"
  using assms
  by (auto simp: save_answer_def save_request_def update_chat_history_def uuid4_def Let_def
      split: if_splits)

lemma save_answer_up:
  "storage_up w \<Longrightarrow> \<exists>t w'. save_answer svc q a w = (Inr t, w')"
  by (simp add: save_answer_def update_chat_history_def uuid4_def Let_def)

lemma save_answer_down:
  "\<not> storage_up w \<Longrightarrow> \<exists>w'. save_answer svc q a w = (Inl PersistenceError, w')"
  by (simp add: save_answer_def update_chat_history_def uuid4_def Let_def)

lemma finalize_None: "g_response L = None \<Longrightarrow> finalize e svc L w = ((Raised UnboundLocalError, Finished), w)"
  by (simp add: finalize_def)

lemma finalize_Some:
  "g_response L = Some r \<Longrightarrow>
   finalize e svc L w =
     (case save_answer svc (g_question L) (final_answer e svc L r) w of
        (Inl err, w1) \<Rightarrow> ((Raised err, Finished), w1)
      | (Inr saved, w1) \<Rightarrow>
          ((Yielded (final_record e svc L r), AtFinalYield),
            log_event (Ev_yield (final_record e svc L r)) w1))"
  by (simp add: finalize_def final_answer_def final_record_def final_metadata_def Let_def
        streamed_record_def model_dump_def split: prod.splits sum.splits)

lemma after_chunks_fields [simp]:
  "g_message_metadata (after_chunks L cs) = g_message_metadata L"
  "g_question (after_chunks L cs) = g_question L"
  "g_model_metadata (after_chunks L cs) = g_model_metadata L"
  by (induction cs arbitrary: L) simp_all

lemma full_answer_after_chunks:
  "g_full_answer (after_chunks L cs) = g_full_answer L @ concat (map chunk_answer cs)"
  by (induction cs arbitrary: L) simp_all

lemma stream_loop_nonterminal:
  "\<not> last_chunk c \<Longrightarrow>
   stream_loop e svc L (Chunk c # rest) w =
     ((Yielded (partial_record (g_message_metadata L) c), InLoop (after_chunks L [c]) rest),
      log_event (Ev_yield (partial_record (g_message_metadata L) c)) w)"
  by (simp add: partial_record_def Let_def)

lemma anext_InLoop: "anext e svc (InLoop L rest) w = stream_loop e svc L rest w"
  by (simp add: anext_def)

lemma anext_Created:
  "anext e svc (Created q) w =
     stream_loop e svc (fst (fst (start e svc q w))) (snd (fst (start e svc q w)))
       (snd (start e svc q w))"
  by (simp add: anext_def split: prod.splits)

lemma consume_done:
  "consume e svc n AtFinalYield w =
     (if n = 0 then (([], AtFinalYield), w) else (([StopAsyncIteration], Finished), w))"
  "consume e svc n Finished w =
     (if n = 0 then (([], Finished), w) else (([StopAsyncIteration], Finished), w))"
  by (cases n; simp add: anext_def)+

lemma consume_Suc_Created:
  "consume e svc (Suc n) (Created q) w =
     consume e svc (Suc n) (InLoop (fst (fst (start e svc q w))) (snd (fst (start e svc q w))))
       (snd (start e svc q w))"
  by (simp add: anext_Created anext_InLoop)

lemma consume_partials:
  "\<forall>c\<in>set cs. \<not> last_chunk c \<Longrightarrow>
   consume e svc (length cs + k) (InLoop L (map Chunk cs @ rest)) w =
     (case consume e svc k (InLoop (after_chunks L cs) rest)
             (w\<lparr>trace := trace w @ map (\<lambda>c. Ev_yield (partial_record (g_message_metadata L) c)) cs\<rparr>) of
        ((rs, g), w') \<Rightarrow>
          ((map (\<lambda>c. Yielded (partial_record (g_message_metadata L) c)) cs @ rs, g), w'))"
proof (induction cs arbitrary: L w)
  case Nil
  show ?case by (simp split: prod.splits)
next
  case (Cons c cs)
  have nt: "\<not> last_chunk c" and rest: "\<forall>c\<in>set cs. \<not> last_chunk c"
    using Cons.prems by simp_all
  have step: "stream_loop e svc L (Chunk c # map Chunk cs @ rest) w =
     ((Yielded (partial_record (g_message_metadata L) c), InLoop (after_chunks L [c]) (map Chunk cs @ rest)),
      log_event (Ev_yield (partial_record (g_message_metadata L) c)) w)"
    using nt by (rule stream_loop_nonterminal)
  show ?case
    using Cons.IH [OF rest, of "after_chunks L [c]" "log_event (Ev_yield (partial_record (g_message_metadata L) c)) w"]
    by (simp add: anext_InLoop step log_event_def del: stream_loop.simps split: prod.splits)
qed

lemma stream_loop_cases [consumes 1, case_names Partial Final Raise]:
  assumes "stream_loop e svc L s w = ((out, g'), w')"
  obtains
    (Partial) c L' rest where
      "out = Yielded (partial_record (g_message_metadata L) c)" "g' = InLoop L' rest"
      "w' = log_event (Ev_yield (partial_record (g_message_metadata L) c)) w"
      "ProviderFailure \<in> set s \<longrightarrow> ProviderFailure \<in> set rest"
      "g_model_metadata L' = g_model_metadata L"
      "g_question L' = g_question L" "g_message_metadata L' = g_message_metadata L"
  | (Final) L' r saved w1 where
      "ProviderFailure \<notin> set s" "g_response L' = Some r"
      "g_model_metadata L' = g_model_metadata L" "g_question L' = g_question L"
      "g_message_metadata L' = g_message_metadata L"
      "save_answer svc (g_question L') (final_answer e svc L' r) w = (Inr saved, w1)"
      "out = Yielded (final_record e svc L' r)" "g' = AtFinalYield"
      "w' = log_event (Ev_yield (final_record e svc L' r)) w1"
  | (Raise) err where
      "out = Raised err" "g' = Finished" "history w' = history w" "usage w' = usage w"
      "trace w' = trace w \<or> (ProviderFailure \<notin> set s \<and> (\<exists>c. trace w' = trace w @ [Ev_save_answer c]))"
  using assms
proof (induction e svc L s w arbitrary: thesis rule: stream_loop.induct)
  case (1 e svc L w)
  show ?case
  proof (cases "g_response L")
    case None
    with 1 show ?thesis by (auto simp: finalize_None)
  next
    case (Some r)
    obtain res w1 where sa: "save_answer svc (g_question L) (final_answer e svc L r) w = (res, w1)"
      by (cases "save_answer svc (g_question L) (final_answer e svc L r) w")
    show ?thesis
    proof (cases res)
      case (Inl err)
      with 1 Some sa save_answer_Inl [of svc "g_question L" "final_answer e svc L r" w err w1]
      show ?thesis by (auto simp: finalize_Some)
    next
      case (Inr saved)
      with 1(2)[of L r saved w1] 1(4) Some sa show ?thesis by (auto simp: finalize_Some)
    qed
  qed
next
  case (2 e svc L rest w)
  then show ?case by auto
next
  case (3 e svc L response rest w)
  show ?case
  proof (cases "last_chunk response")
    case False
    have sub: "ProviderFailure \<in> set (Chunk response # rest) \<longrightarrow> ProviderFailure \<in> set rest"
      by auto
    let ?L2 = "L\<lparr>g_response := Some response,
                    g_full_answer := g_full_answer L @ chunk_answer response\<rparr>"
    from False 3(5) show ?thesis
      by (intro 3(2)[of response ?L2 rest, OF _ _ _ sub]) (auto simp: partial_record_def Let_def)
  next
    case True
    let ?L1 = "L\<lparr>g_response := Some response,
                    g_full_answer :=
                      (if g_full_answer L = [] then g_full_answer L @ chunk_answer response
                       else g_full_answer L)\<rparr>"
    from True 3(5) have sl: "stream_loop e svc ?L1 rest w = ((out, g'), w')" by (simp add: Let_def)
    from sl show ?thesis
    proof (rule "3.IH"[OF _ refl, rotated -1])
      show "\<not> \<not> last_chunk response" using True by simp
    next
      fix c L' rest'
      assume "out = Yielded (partial_record (g_message_metadata ?L1) c)" "g' = InLoop L' rest'"
        "w' = log_event (Ev_yield (partial_record (g_message_metadata ?L1) c)) w"
        "ProviderFailure \<in> set rest \<longrightarrow> ProviderFailure \<in> set rest'"
        "g_model_metadata L' = g_model_metadata ?L1"
        "g_question L' = g_question ?L1" "g_message_metadata L' = g_message_metadata ?L1"
      then show thesis by (intro 3(2)[of c L' rest']) auto
    next
      fix L' r saved w1
      assume "ProviderFailure \<notin> set rest" "g_response L' = Some r"
        "g_model_metadata L' = g_model_metadata ?L1" "g_question L' = g_question ?L1"
        "g_message_metadata L' = g_message_metadata ?L1"
        "save_answer svc (g_question L') (final_answer e svc L' r) w = (Inr saved, w1)"
        "out = Yielded (final_record e svc L' r)" "g' = AtFinalYield"
        "w' = log_event (Ev_yield (final_record e svc L' r)) w1"
      then show thesis by (intro 3(3)[of L' r saved w1]) auto
    next
      fix err
      assume "out = Raised err" "g' = Finished" "history w' = history w" "usage w' = usage w"
        "trace w' = trace w \<or> (ProviderFailure \<notin> set rest \<and> (\<exists>c. trace w' = trace w @ [Ev_save_answer c]))"
      then show thesis by (intro 3(4)[of err]) auto
    qed
  qed
qed

lemma start_facts:
  "snd (fst (start e svc q w)) = provider_stream e svc q w"
  "history (snd (start e svc q w)) = history w"
  "usage (snd (start e svc q w)) = usage w"
  "storage_up (snd (start e svc q w)) = storage_up w"
  "trace (snd (start e svc q w)) = trace w @ [Ev_answer_astream q]"
  "g_question (fst (fst (start e svc q w))) = q"
  "g_model_metadata (fst (fst (start e svc q w))) = get_model e (m_name (model_to_use svc))"
  "g_full_answer (fst (fst (start e svc q w))) = []"
  "g_response (fst (fst (start e svc q w))) = None"
  by (simp_all add: start_def uuid4_def Let_def)

lemma brain_ids_final:
  "ce_metadata t = model_dump (final_metadata e svc L r) \<Longrightarrow>
   brain_ids [t] = [generate_uuid_from_string e (m_name (model_to_use svc))]"
  by (simp add: model_dump_def final_metadata_def)

lemma consume_InLoop_cases [consumes 1, case_names Unsaved Saved SaveFailed]:
  assumes "consume e svc n (InLoop L s) w = ((rs, g'), w')"
  obtains
    (Unsaved) ys where
      "history w' = history w" "trace w' = trace w @ ys" "\<forall>ev\<in>set ys. is_yield ev"
      "StopAsyncIteration \<notin> set rs" "usage w' = usage w"
  | (Saved) ys t c r where
      "ProviderFailure \<notin> set s" "history w' = history w @ [t]"
      "brain_ids [t] = [generate_uuid_from_string e (m_name (model_to_use svc))]"
      "trace w' = trace w @ ys @ [Ev_save_answer c, Ev_yield r]" "\<forall>ev\<in>set ys. is_yield ev"
      "usage w' = usage w"
  | (SaveFailed) ys c where
      "ProviderFailure \<notin> set s" "history w' = history w"
      "trace w' = trace w @ ys @ [Ev_save_answer c]" "\<forall>ev\<in>set ys. is_yield ev"
      "StopAsyncIteration \<notin> set rs" "usage w' = usage w"
  using assms
proof (induction n arbitrary: L s w rs g' w' thesis)
  case 0
  from "0.prems"(4) have "w' = w" "rs = []" by simp_all
  then show ?case by (intro "0.prems"(1)[of "[]"]) simp_all
next
  case (Suc n)
  obtain out g1 w1 where sl: "stream_loop e svc L s w = ((out, g1), w1)"
    by (metis prod.exhaust)
  from sl show ?case
  proof (cases rule: stream_loop_cases)
    case (Partial c L' rest)
    let ?ev = "Ev_yield (partial_record (g_message_metadata L) c)"
    obtain rs1 where c1: "consume e svc n (InLoop L' rest) w1 = ((rs1, g'), w')"
      and rs: "rs = out # rs1"
      using Suc.prems(4) sl Partial(1,2)
      by (auto simp: anext_InLoop split: prod.splits)
    have w1: "history w1 = history w" "trace w1 = trace w @ [?ev]" "usage w1 = usage w"
      using Partial(3) by simp_all
    show ?thesis
    proof (rule Suc.IH [rotated -1, OF c1])
      fix ys
      assume "history w' = history w1" "trace w' = trace w1 @ ys" "\<forall>ev\<in>set ys. is_yield ev"
        "StopAsyncIteration \<notin> set rs1" "usage w' = usage w1"
      then show thesis using w1 rs Partial(1)
        by (intro Suc.prems(1)[of "?ev # ys"]) auto
    next
      fix ys t c' r
      assume "ProviderFailure \<notin> set rest" "history w' = history w1 @ [t]"
        "brain_ids [t] = [generate_uuid_from_string e (m_name (model_to_use svc))]"
        "trace w' = trace w1 @ ys @ [Ev_save_answer c', Ev_yield r]" "\<forall>ev\<in>set ys. is_yield ev"
        "usage w' = usage w1"
      then show thesis using w1 Partial(4)
        by (intro Suc.prems(2)[of t "?ev # ys" c' r]) auto
    next
      fix ys c'
      assume "ProviderFailure \<notin> set rest" "history w' = history w1"
        "trace w' = trace w1 @ ys @ [Ev_save_answer c']" "\<forall>ev\<in>set ys. is_yield ev"
        "StopAsyncIteration \<notin> set rs1" "usage w' = usage w1"
      then show thesis using w1 rs Partial(1,4)
        by (intro Suc.prems(3)[of "?ev # ys" c']) auto
    qed
  next
    case (Final L' r saved w0)
    have "w' = w1"
      using Suc.prems(4) sl Final(7,8)
      by (auto simp: anext_InLoop consume_done split: prod.splits if_splits)
    moreover note sv = save_answer_Inr [OF Final(6)]
    moreover have "brain_ids [saved] = [generate_uuid_from_string e (m_name (model_to_use svc))]"
      using sv(6) by (intro brain_ids_final[of _ e svc L' r]) (simp add: final_answer_def)
    ultimately show ?thesis using Final(1,9)
      by (intro Suc.prems(2)[of saved "[]" "save_request svc (g_question L') (final_answer e svc L' r)" "final_record e svc L' r"]) auto
  next
    case (Raise err)
    have eq: "w' = w1" "rs = [Raised err]"
      using Suc.prems(4) sl Raise(1,2)
      by (auto simp: anext_InLoop split: prod.splits)
    from Raise(5) show ?thesis
    proof
      assume "trace w1 = trace w"
      then show ?thesis using eq Raise(3,4) by (intro Suc.prems(1)[of "[]"]) auto
    next
      assume "ProviderFailure \<notin> set s \<and> (\<exists>c. trace w1 = trace w @ [Ev_save_answer c])"
      then obtain c where "ProviderFailure \<notin> set s" "trace w1 = trace w @ [Ev_save_answer c]"
        by blast
      then show ?thesis using eq Raise(3,4) by (intro Suc.prems(3)[of "[]" c]) auto
    qed
  qed
qed

lemma event_kinds:
  "is_yield ev \<or> is_llm_call ev \<Longrightarrow> \<not> is_save_answer ev"
  "is_yield ev \<or> is_llm_call ev \<or> is_save_answer ev \<Longrightarrow> \<not> is_check_usage ev"
  by (cases ev; simp)+

lemma consume_Created_cases [consumes 1, case_names Unsaved Saved SaveFailed]:
  assumes "consume e svc n (generate_answer_stream svc q) w = ((rs, g'), w')"
  obtains
    (Unsaved) evs where
      "history w' = history w" "trace w' = trace w @ evs"
      "\<forall>ev\<in>set evs. is_yield ev \<or> is_llm_call ev"
      "StopAsyncIteration \<notin> set rs" "usage w' = usage w"
  | (Saved) evs t c r where
      "ProviderFailure \<notin> set (provider_stream e svc q w)" "history w' = history w @ [t]"
      "brain_ids [t] = [generate_uuid_from_string e (m_name (model_to_use svc))]"
      "trace w' = trace w @ evs @ [Ev_save_answer c, Ev_yield r]"
      "\<forall>ev\<in>set evs. is_yield ev \<or> is_llm_call ev" "usage w' = usage w"
  | (SaveFailed) evs c where
      "ProviderFailure \<notin> set (provider_stream e svc q w)" "history w' = history w"
      "trace w' = trace w @ evs @ [Ev_save_answer c]"
      "\<forall>ev\<in>set evs. is_yield ev \<or> is_llm_call ev"
      "StopAsyncIteration \<notin> set rs" "usage w' = usage w"
proof (cases n)
  case 0
  with assms have "w' = w" "rs = []" by (simp_all add: generate_answer_stream_def)
  then show ?thesis by (intro Unsaved[of "[]"]) simp_all
next
  case (Suc m)
  let ?L = "fst (fst (start e svc q w))" and ?w = "snd (start e svc q w)"
  let ?ev = "Ev_answer_astream q"
  from assms Suc
  have c: "consume e svc (Suc m) (InLoop ?L (provider_stream e svc q w)) ?w = ((rs, g'), w')"
    by (simp only: generate_answer_stream_def consume_Suc_Created start_facts(1))
  note sf = start_facts(2,3,5)[of e svc q w]
  from c show ?thesis
  proof (cases rule: consume_InLoop_cases)
    case (Unsaved ys)
    then show ?thesis using sf by (intro that(1)[of "?ev # ys"]) auto
  next
    case (Saved ys t c r)
    then show ?thesis using sf by (intro that(2)[of t "?ev # ys" c r]) auto
  next
    case (SaveFailed ys c)
    then show ?thesis using sf by (intro that(3)[of "?ev # ys" c]) auto
  qed
qed

lemma generate_answer_Inl:
  "answer e (build_llm e svc) q (build_chat_history e svc (get_chat_history (chat_id svc) w)) = Inl err \<Longrightarrow>
   generate_answer e svc q w = (Inl err, log_event (Ev_answer q) w)"
  by (simp add: generate_answer_def Let_def)

lemma generate_answer_Inr:
  "answer e (build_llm e svc) q (build_chat_history e svc (get_chat_history (chat_id svc) w)) = Inr resp \<Longrightarrow>
   generate_answer e svc q w =
     (case save_answer svc q (enriched e svc resp) (log_event (Ev_answer q) w) of
        (Inl err, w2) \<Rightarrow> (Inl err, w2)
      | (Inr new_chat_entry, w2) \<Rightarrow>
          (Inr \<lparr>out_chat_id = chat_id svc,
                out_user_message = q,
                out_assistant = pr_answer (enriched e svc resp),
                out_message_time = ce_message_time new_chat_entry,
                out_prompt_title = None,
                out_brain_name = None,
                out_message_id = ce_message_id new_chat_entry,
                out_brain_id = None,
                out_metadata =
                  (case pr_metadata (enriched e svc resp) of
                     Some md \<Rightarrow> model_dump md | None \<Rightarrow> EmptyDict)\<rparr>, w2))"
  by (cases "pr_metadata resp")
    (simp_all add: generate_answer_def enriched_def model_block_def Let_def
       split: prod.splits sum.splits)

lemma generate_answer_cases [consumes 1, case_names Failed Saved SaveFailed]:
  assumes "generate_answer e svc q w = (res, w')"
  obtains
    (Failed) err where
      "answer e (build_llm e svc) q (build_chat_history e svc (get_chat_history (chat_id svc) w)) = Inl err"
      "res = Inl err" "history w' = history w" "trace w' = trace w @ [Ev_answer q]"
      "usage w' = usage w"
  | (Saved) resp t out where
      "answer e (build_llm e svc) q (build_chat_history e svc (get_chat_history (chat_id svc) w)) = Inr resp"
      "res = Inr out" "history w' = history w @ [t]"
      "trace w' = trace w @ [Ev_answer q, Ev_save_answer (save_request svc q (enriched e svc resp))]"
      "ce_metadata t = (case pr_metadata (enriched e svc resp) of Some md \<Rightarrow> model_dump md | None \<Rightarrow> EmptyDict)"
      "ce_assistant t = pr_answer resp" "ce_user_message t = q" "usage w' = usage w"
      "out_metadata out = ce_metadata t" "out_assistant out = ce_assistant t"
  | (SaveFailed) resp where
      "answer e (build_llm e svc) q (build_chat_history e svc (get_chat_history (chat_id svc) w)) = Inr resp"
      "res = Inl PersistenceError" "history w' = history w"
      "trace w' = trace w @ [Ev_answer q, Ev_save_answer (save_request svc q (enriched e svc resp))]"
      "usage w' = usage w"
proof (cases "answer e (build_llm e svc) q (build_chat_history e svc (get_chat_history (chat_id svc) w))")
  case (Inl err)
  with assms show ?thesis by (intro Failed[of err]) (auto simp: generate_answer_Inl)
next
  case (Inr resp)
  obtain r2 w2 where sa: "save_answer svc q (enriched e svc resp) (log_event (Ev_answer q) w) = (r2, w2)"
    by (metis prod.exhaust)
  show ?thesis
  proof (cases r2)
    case (Inl err)
    with assms Inr sa save_answer_Inl[of svc q "enriched e svc resp" "log_event (Ev_answer q) w" err w2]
    show ?thesis by (intro SaveFailed[of resp]) (auto simp: generate_answer_Inr)
  next
    case r: (Inr t)
    have pa: "pr_answer (enriched e svc resp) = pr_answer resp"
      by (simp add: enriched_def split: option.splits)
    from assms Inr sa r save_answer_Inr[of svc q "enriched e svc resp" "log_event (Ev_answer q) w" t w2] pa
    show ?thesis by (intro Saved[of resp _ t]) (auto simp: generate_answer_Inr)
  qed
qed

section \<open>Whole runs\<close>

lemmas demo_defs = demo_user_def demo_model_def demo_chunk_def demo_env_def demo_world_def demo_svc_def

lemmas run_defs = generate_answer_def save_answer_def update_chat_history_def uuid4_def
  log_event_def Let_def generate_answer_stream_def anext_def start_def provider_stream_def
  finalize_def streamed_record_def model_dump_def build_llm_def build_chat_history_def
  get_chat_history_def

lemmas init_defs = init_def check_and_update_user_usage_def update_user_usage_def
  find_model_and_generate_metadata_def

lemma filter_save_none:
  "\<forall>ev\<in>set evs. is_yield ev \<or> is_llm_call ev \<Longrightarrow> filter is_save_answer evs = []"
  unfolding filter_empty_conv using event_kinds(1) by blast

lemma stream_loop_terminal:
  "last_chunk t \<Longrightarrow>
   stream_loop e svc L [Chunk t] w = finalize e svc (after_terminal L t) w"
  by (simp add: after_terminal_def Let_def)

lemma after_terminal_fields [simp]:
  "g_response (after_terminal L t) = Some t"
  "g_question (after_terminal L t) = g_question L"
  "g_message_metadata (after_terminal L t) = g_message_metadata L"
  "g_model_metadata (after_terminal L t) = g_model_metadata L"
  "g_full_answer (after_terminal L t) =
     (if g_full_answer L = [] then chunk_answer t else g_full_answer L)"
  by (simp_all add: after_terminal_def)

lemma consume_terminal:
  assumes "last_chunk t"
  shows "consume e svc (Suc k) (InLoop L [Chunk t]) w =
     (case save_answer svc (g_question L) (final_answer e svc (after_terminal L t) t) w of
        (Inl err, w1) \<Rightarrow> (([Raised err], Finished), w1)
      | (Inr saved, w1) \<Rightarrow>
          ((Yielded (final_record e svc (after_terminal L t) t) #
              (if k = 0 then [] else [StopAsyncIteration]),
            if k = 0 then AtFinalYield else Finished),
           log_event (Ev_yield (final_record e svc (after_terminal L t) t)) w1))"
  using assms
  by (simp add: anext_InLoop stream_loop_terminal finalize_Some consume_done
      del: stream_loop.simps split: prod.splits sum.splits)

lemma consume_wellformed:
  assumes s_eq: "provider_stream e svc q w = map Chunk cs @ [Chunk t]"
    and nt: "\<forall>c\<in>set cs. \<not> last_chunk c"
    and lt: "last_chunk t"
  shows "consume e svc (length cs + Suc k) (generate_answer_stream svc q) w =
     (let L0 = fst (fst (start e svc q w));
          mm = g_message_metadata L0;
          Lf = after_terminal (after_chunks L0 cs) t;
          wp = (snd (start e svc q w))\<lparr>trace := trace w @ Ev_answer_astream q #
                  map (\<lambda>c. Ev_yield (partial_record mm c)) cs\<rparr>;
          partials = map (\<lambda>c. Yielded (partial_record mm c)) cs
      in case save_answer svc q (final_answer e svc Lf t) wp of
           (Inl err, w1) \<Rightarrow> ((partials @ [Raised err], Finished), w1)
         | (Inr saved, w1) \<Rightarrow>
             ((partials @ Yielded (final_record e svc Lf t) #
                 (if k = 0 then [] else [StopAsyncIteration]),
               if k = 0 then AtFinalYield else Finished),
              log_event (Ev_yield (final_record e svc Lf t)) w1))"
proof -
  let ?L0 = "fst (fst (start e svc q w))" and ?w0 = "snd (start e svc q w)"
  have "consume e svc (length cs + Suc k) (generate_answer_stream svc q) w =
        consume e svc (length cs + Suc k) (InLoop ?L0 (map Chunk cs @ [Chunk t])) ?w0"
    using consume_Suc_Created[of e svc "length cs + k" q w] s_eq
    by (simp only: generate_answer_stream_def start_facts(1) add_Suc_right)
  also note consume_partials[OF nt, of e svc "Suc k" ?L0 "[Chunk t]" ?w0]
  finally show ?thesis
    using lt
    by (simp add: consume_terminal start_facts Let_def del: consume.simps
        split: prod.splits sum.splits)
qed

lemma consume_take:
  assumes s_eq: "provider_stream e svc q w = map Chunk cs @ rest"
    and nt: "\<forall>c\<in>set cs. \<not> last_chunk c"
    and m: "m \<le> length cs" "m \<le> n" "0 < n"
  shows "consume e svc n (generate_answer_stream svc q) w =
     (case consume e svc (n - m)
             (InLoop (after_chunks (fst (fst (start e svc q w))) (take m cs))
                (map Chunk (drop m cs) @ rest))
             ((snd (start e svc q w))\<lparr>trace := trace w @ Ev_answer_astream q #
                 map (\<lambda>c. Ev_yield (partial_record (g_message_metadata (fst (fst (start e svc q w)))) c))
                   (take m cs)\<rparr>) of
        ((rs, g), w') \<Rightarrow>
          ((map (\<lambda>c. Yielded (partial_record (g_message_metadata (fst (fst (start e svc q w)))) c))
              (take m cs) @ rs, g), w'))"
proof -
  let ?L0 = "fst (fst (start e svc q w))" and ?w0 = "snd (start e svc q w)"
  obtain n' where n': "n = Suc n'" using m(3) by (cases n) auto
  have split: "map Chunk cs @ rest = map Chunk (take m cs) @ (map Chunk (drop m cs) @ rest)"
    by (simp flip: map_append)
  have nt': "\<forall>c\<in>set (take m cs). \<not> last_chunk c"
    using nt by (auto dest: in_set_takeD)
  have len: "n = length (take m cs) + (n - m)" using m by simp
  have "consume e svc n (generate_answer_stream svc q) w =
        consume e svc n (InLoop ?L0 (map Chunk cs @ rest)) ?w0"
    using consume_Suc_Created[of e svc n' q w] s_eq
    by (simp only: generate_answer_stream_def start_facts(1) n')
  also have "\<dots> = consume e svc (length (take m cs) + (n - m))
       (InLoop ?L0 (map Chunk (take m cs) @ (map Chunk (drop m cs) @ rest))) ?w0"
    using len split by simp
  also note consume_partials[OF nt', of e svc "n - m" ?L0 "map Chunk (drop m cs) @ rest" ?w0]
  finally show ?thesis by (simp add: start_facts del: consume.simps)
qed

lemma demo_stream_eq:
  "provider_stream demo_env demo_svc ''q'' demo_world =
     map Chunk [demo_chunk ''a'' False, demo_chunk ''b'' False] @ [Chunk (demo_chunk [] True)]"
  by (simp add: provider_stream_def demo_env_def)

lemma demo_nonterminal:
  "\<forall>c\<in>set [demo_chunk ''a'' False, demo_chunk ''b'' False]. \<not> last_chunk c"
  by (simp add: demo_chunk_def)

lemma init_trace:
  "trace (snd (init e user model_name cid w)) = trace w @ [Ev_check_usage (user_id user) model_name]"
  "history (snd (init e user model_name cid w)) = history w"
  by (simp_all add: init_def check_and_update_user_usage_def update_user_usage_def Let_def
      split: sum.splits prod.splits)

lemma run_trace:
  "\<exists>evs. trace (run e svc c w) = trace w @ evs \<and> (\<forall>ev\<in>set evs. \<not> is_check_usage ev)"
proof (cases c)
  case (Sync q)
  obtain r w' where g: "generate_answer e svc q w = (r, w')" by (metis prod.exhaust)
  from g have "\<exists>evs. trace w' = trace w @ evs \<and> (\<forall>ev\<in>set evs. \<not> is_check_usage ev)"
    by (cases rule: generate_answer_cases) auto
  with Sync g show ?thesis by simp
next
  case (Stream n q)
  obtain rs g w' where c: "consume e svc n (generate_answer_stream svc q) w = ((rs, g), w')"
    by (metis prod.exhaust)
  from c have "\<exists>evs. trace w' = trace w @ evs \<and> (\<forall>ev\<in>set evs. \<not> is_check_usage ev)"
  proof (cases rule: consume_Created_cases)
    case (Unsaved evs)
    then show ?thesis using event_kinds(2) by blast
  next
    case (Saved evs t c r)
    have "\<forall>ev\<in>set (evs @ [Ev_save_answer c, Ev_yield r]). \<not> is_check_usage ev"
      using Saved(5) event_kinds(2) by auto
    with Saved(4) show ?thesis by blast
  next
    case (SaveFailed evs c)
    have "\<forall>ev\<in>set (evs @ [Ev_save_answer c]). \<not> is_check_usage ev"
      using SaveFailed(4) event_kinds(2) by auto
    with SaveFailed(3) show ?thesis by blast
  qed
  with Stream c show ?thesis by simp
qed

lemma init_result:
  "init e user model_name cid w =
     (case find_model_and_generate_metadata model_name (settings_of w (user_id user))
             (models_of w (user_id user)) of
        Inl err \<Rightarrow> (Inl err, log_event (Ev_check_usage (user_id user) model_name) w)
      | Inr m \<Rightarrow>
          if monthly_chat_credits (settings_of w (user_id user)) <
               usage w (user_id user) + compute_cost e m (models_of w (user_id user))
          then (Inl QuotaExceeded, log_event (Ev_check_usage (user_id user) model_name) w)
          else (Inr \<lparr>current_user = user, chat_id = cid, model_to_use = m\<rparr>,
                (log_event (Ev_check_usage (user_id user) model_name) w)
                  \<lparr>usage := (usage w)(user_id user :=
                     usage w (user_id user) + compute_cost e m (models_of w (user_id user)))\<rparr>))"
  by (simp add: init_def check_and_update_user_usage_def update_user_usage_def Let_def
      split: sum.splits)

lemma run_usage: "usage (run e svc c w) = usage w"
proof (cases c)
  case (Sync q)
  obtain r w' where g: "generate_answer e svc q w = (r, w')" by (metis prod.exhaust)
  from g have "usage w' = usage w" by (cases rule: generate_answer_cases) auto
  with Sync g show ?thesis by simp
next
  case (Stream n q)
  obtain rs g w' where c: "consume e svc n (generate_answer_stream svc q) w = ((rs, g), w')"
    by (metis prod.exhaust)
  from c have "usage w' = usage w" by (cases rule: consume_Created_cases) auto
  with Stream c show ?thesis by simp
qed

lemma new_brain_ids:
  "set (brain_ids (drop (length (history w)) (history (run e svc c w)))) \<subseteq>
     {generate_uuid_from_string e (m_name (model_to_use svc))}"
proof (cases c)
  case (Sync q)
  obtain r w' where g: "generate_answer e svc q w = (r, w')" by (metis prod.exhaust)
  from g have "set (brain_ids (drop (length (history w)) (history w'))) \<subseteq>
     {generate_uuid_from_string e (m_name (model_to_use svc))}"
    by (cases rule: generate_answer_cases)
       (auto simp: enriched_def model_block_def model_dump_def split: option.splits)
  with Sync g show ?thesis by simp
next
  case (Stream n q)
  obtain rs g w' where c: "consume e svc n (generate_answer_stream svc q) w = ((rs, g), w')"
    by (metis prod.exhaust)
  from c have "set (brain_ids (drop (length (history w)) (history w'))) \<subseteq>
     {generate_uuid_from_string e (m_name (model_to_use svc))}"
    by (cases rule: consume_Created_cases) (simp_all del: brain_ids.simps(2))
  with Stream c show ?thesis by simp
qed

section \<open>The claims\<close>

text \<open>
  Claim C1 (exactly-once persistence). A synchronous call that succeeds, and a streaming
  call that the consumer pulls until the generator ends, each append exactly one turn to
  the chat history, through exactly one call of \<open>save_answer\<close>. When the model call
  raises, the synchronous call raises the same error, no turn is appended and
  \<open>save_answer\<close> is not called; when the provider's stream contains a failure, no number
  of pulls appends a turn or calls \<open>save_answer\<close>.
\<close>

theorem exactly_once_persistence:
  "(\<not> isl (fst (generate_answer e svc q w)) \<longrightarrow>
      (\<exists>t. history (snd (generate_answer e svc q w)) = history w @ [t]) \<and>
      length (filter is_save_answer (trace (snd (generate_answer e svc q w)))) =
        Suc (length (filter is_save_answer (trace w))))
   \<and>
   (StopAsyncIteration \<in> set (fst (fst (consume e svc n (generate_answer_stream svc q) w))) \<longrightarrow>
      (\<exists>t. history (snd (consume e svc n (generate_answer_stream svc q) w)) = history w @ [t]) \<and>
      length (filter is_save_answer (trace (snd (consume e svc n (generate_answer_stream svc q) w)))) =
        Suc (length (filter is_save_answer (trace w))))
   \<and>
   (answer e (build_llm e svc) q
        (build_chat_history e svc (get_chat_history (chat_id svc) w)) = Inl err \<longrightarrow>
      fst (generate_answer e svc q w) = Inl err \<and>
      history (snd (generate_answer e svc q w)) = history w \<and>
      filter is_save_answer (trace (snd (generate_answer e svc q w))) =
        filter is_save_answer (trace w))
   \<and>
   (ProviderFailure \<in> set (provider_stream e svc q w) \<longrightarrow>
      history (snd (consume e svc n (generate_answer_stream svc q) w)) = history w \<and>
      filter is_save_answer (trace (snd (consume e svc n (generate_answer_stream svc q) w))) =
        filter is_save_answer (trace w))"
proof -
  obtain r w' where g: "generate_answer e svc q w = (r, w')" by (metis prod.exhaust)
  obtain rs gen w'' where c: "consume e svc n (generate_answer_stream svc q) w = ((rs, gen), w'')"
    by (metis prod.exhaust)
  have sync_ok: "\<not> isl r \<longrightarrow> (\<exists>t. history w' = history w @ [t]) \<and>
      length (filter is_save_answer (trace w')) = Suc (length (filter is_save_answer (trace w)))"
    using g by (cases rule: generate_answer_cases) auto
  have sync_fail: "answer e (build_llm e svc) q
        (build_chat_history e svc (get_chat_history (chat_id svc) w)) = Inl err \<longrightarrow>
      r = Inl err \<and> history w' = history w \<and>
      filter is_save_answer (trace w') = filter is_save_answer (trace w)"
    using g by (auto simp: generate_answer_Inl)
  have stream_ok: "StopAsyncIteration \<in> set rs \<longrightarrow> (\<exists>t. history w'' = history w @ [t]) \<and>
      length (filter is_save_answer (trace w'')) = Suc (length (filter is_save_answer (trace w)))"
    using c
  proof (cases rule: consume_Created_cases)
    case (Saved evs t c r)
    have "filter is_save_answer evs = []"
      using Saved(5) by (rule filter_save_none)
    with Saved show ?thesis by simp
  qed auto
  have stream_fail: "ProviderFailure \<in> set (provider_stream e svc q w) \<longrightarrow>
      history w'' = history w \<and>
      filter is_save_answer (trace w'') = filter is_save_answer (trace w)"
    using c
  proof (cases rule: consume_Created_cases)
    case (Unsaved evs)
    have "filter is_save_answer evs = []"
      using Unsaved(3) by (rule filter_save_none)
    with Unsaved show ?thesis by simp
  qed auto
  from sync_ok sync_fail stream_ok stream_fail show ?thesis
    unfolding g c by simp
qed

theorem exactly_once_persistence_witness:
  "\<not> isl (fst (generate_answer demo_env demo_svc ''q'' demo_world)) \<and>
   length (history (snd (generate_answer demo_env demo_svc ''q'' demo_world))) = 1 \<and>
   StopAsyncIteration \<in> set (fst (fst (consume demo_env demo_svc 4
       (generate_answer_stream demo_svc ''q'') demo_world))) \<and>
   length (history (snd (consume demo_env demo_svc 4
       (generate_answer_stream demo_svc ''q'') demo_world))) = 1 \<and>
   answer failing_env (build_llm failing_env demo_svc) ''q''
     (build_chat_history failing_env demo_svc (get_chat_history (chat_id demo_svc) demo_world)) =
       Inl InvocationError \<and>
   history (snd (generate_answer failing_env demo_svc ''q'' demo_world)) = [] \<and>
   ProviderFailure \<in> set (provider_stream failing_env demo_svc ''q'' demo_world) \<and>
   history (snd (consume failing_env demo_svc 4
       (generate_answer_stream demo_svc ''q'') demo_world)) = []"
proof -
  have h1: "\<not> isl (fst (generate_answer demo_env demo_svc ''q'' demo_world))"
    by (simp add: run_defs demo_defs)
  have h2: "StopAsyncIteration \<in> set (fst (fst (consume demo_env demo_svc 4
       (generate_answer_stream demo_svc ''q'') demo_world)))"
    by (simp add: run_defs demo_defs eval_nat_numeral)
  have h3: "answer failing_env (build_llm failing_env demo_svc) ''q''
     (build_chat_history failing_env demo_svc (get_chat_history (chat_id demo_svc) demo_world)) =
       Inl InvocationError"
    by (simp add: failing_env_def)
  have h4: "ProviderFailure \<in> set (provider_stream failing_env demo_svc ''q'' demo_world)"
    by (simp add: failing_env_def provider_stream_def)
  have h: "history demo_world = []" by (simp add: demo_world_def)
  from exactly_once_persistence [of demo_env demo_svc "''q''" demo_world 4 InvocationError] h1 h2 h
  have a: "length (history (snd (generate_answer demo_env demo_svc ''q'' demo_world))) = 1"
    "length (history (snd (consume demo_env demo_svc 4
       (generate_answer_stream demo_svc ''q'') demo_world))) = 1"
    by auto
  from exactly_once_persistence [of failing_env demo_svc "''q''" demo_world 4 InvocationError] h3 h4 h
  have b: "history (snd (generate_answer failing_env demo_svc ''q'' demo_world)) = []"
    "history (snd (consume failing_env demo_svc 4
       (generate_answer_stream demo_svc ''q'') demo_world)) = []"
    by auto
  from h1 h2 h3 h4 a b show ?thesis by blast
qed

text \<open>
  Claim C2 (quota resolution once, before anything else). Construction performs the
  quota resolution exactly once and nothing else: it logs one call of
  \<open>check_and_update_user_usage\<close> and writes no turn. When it returns an instance, the
  instance holds the model that the resolution found for the requested name, the cost
  of that model fitted under the user's ceiling, and that cost was added to the user's
  ledger once; when it raises, the error is the resolution's own or \<open>QuotaExceeded\<close>
  and the ledger is as it was. A call of either path on any instance, in any world,
  adds no call of \<open>check_and_update_user_usage\<close> and leaves the ledger alone. So for an
  instance that construction returned, the usage check is the first event, every call
  of the endpoint and of \<open>save_answer\<close> comes after it, and after the call the ledger
  still carries the cost exactly once.
\<close>

theorem quota_resolution_once_before_generation:
  "trace (snd (init e user model_name cid w)) =
     trace w @ [Ev_check_usage (user_id user) model_name] \<and>
   history (snd (init e user model_name cid w)) = history w \<and>
   (fst (init e user model_name cid w) = Inr svc \<longrightarrow>
      current_user svc = user \<and> chat_id svc = cid \<and>
      find_model_and_generate_metadata model_name (settings_of w (user_id user))
        (models_of w (user_id user)) = Inr (model_to_use svc) \<and>
      usage w (user_id user) + compute_cost e (model_to_use svc) (models_of w (user_id user))
        \<le> monthly_chat_credits (settings_of w (user_id user)) \<and>
      usage (snd (init e user model_name cid w)) =
        (usage w)(user_id user :=
           usage w (user_id user) +
           compute_cost e (model_to_use svc) (models_of w (user_id user)))) \<and>
   (fst (init e user model_name cid w) = Inl err \<longrightarrow>
      usage (snd (init e user model_name cid w)) = usage w \<and>
      (case find_model_and_generate_metadata model_name (settings_of w (user_id user))
              (models_of w (user_id user)) of
         Inl err' \<Rightarrow> err = err'
       | Inr m \<Rightarrow>
           err = QuotaExceeded \<and>
           monthly_chat_credits (settings_of w (user_id user)) <
             usage w (user_id user) + compute_cost e m (models_of w (user_id user)))) \<and>
   (\<exists>evs. trace (run e svc1 c w1) = trace w1 @ evs \<and> (\<forall>ev\<in>set evs. \<not> is_check_usage ev)) \<and>
   usage (run e svc1 c w1) = usage w1 \<and>
   (fst (init e user model_name cid w) = Inr svc \<longrightarrow>
      (\<exists>evs. trace (run e svc c (snd (init e user model_name cid w))) =
               trace w @ Ev_check_usage (user_id user) model_name # evs \<and>
             (\<forall>ev\<in>set evs. \<not> is_check_usage ev)) \<and>
      usage (run e svc c (snd (init e user model_name cid w))) =
        (usage w)(user_id user :=
           usage w (user_id user) +
           compute_cost e (model_to_use svc) (models_of w (user_id user))))"
proof -
  let ?uid = "user_id user"
  let ?found = "find_model_and_generate_metadata model_name (settings_of w ?uid) (models_of w ?uid)"
  have construction: "trace (snd (init e user model_name cid w)) =
       trace w @ [Ev_check_usage ?uid model_name]"
    "history (snd (init e user model_name cid w)) = history w"
    by (rule init_trace)+
  have ok: "fst (init e user model_name cid w) = Inr svc \<longrightarrow>
      current_user svc = user \<and> chat_id svc = cid \<and> ?found = Inr (model_to_use svc) \<and>
      usage w ?uid + compute_cost e (model_to_use svc) (models_of w ?uid)
        \<le> monthly_chat_credits (settings_of w ?uid) \<and>
      usage (snd (init e user model_name cid w)) =
        (usage w)(?uid := usage w ?uid + compute_cost e (model_to_use svc) (models_of w ?uid))"
    by (cases ?found) (auto simp: init_result split: if_splits)
  have failed: "fst (init e user model_name cid w) = Inl err \<longrightarrow>
      usage (snd (init e user model_name cid w)) = usage w \<and>
      (case ?found of
         Inl err' \<Rightarrow> err = err'
       | Inr m \<Rightarrow>
           err = QuotaExceeded \<and>
           monthly_chat_credits (settings_of w ?uid) <
             usage w ?uid + compute_cost e m (models_of w ?uid))"
    by (cases ?found) (auto simp: init_result split: if_splits)
  have later: "\<exists>evs. trace (run e svc1 c w1) = trace w1 @ evs \<and>
      (\<forall>ev\<in>set evs. \<not> is_check_usage ev)"
    by (rule run_trace)
  have whole: "fst (init e user model_name cid w) = Inr svc \<longrightarrow>
      (\<exists>evs. trace (run e svc c (snd (init e user model_name cid w))) =
               trace w @ Ev_check_usage ?uid model_name # evs \<and>
             (\<forall>ev\<in>set evs. \<not> is_check_usage ev)) \<and>
      usage (run e svc c (snd (init e user model_name cid w))) =
        (usage w)(?uid := usage w ?uid + compute_cost e (model_to_use svc) (models_of w ?uid))"
    using run_trace[of e svc c "snd (init e user model_name cid w)"] ok
    by (auto simp: construction run_usage)
  from construction ok failed later whole show ?thesis
    by (simp only: run_usage simp_thms)
qed

theorem quota_resolution_once_before_generation_witness:
  "fst (init demo_env demo_user ''model-x'' 3 demo_world) = Inr demo_svc \<and>
   usage (snd (init demo_env demo_user ''model-x'' 3 demo_world)) 7 = 1 \<and>
   usage (run demo_env demo_svc (Stream 4 ''q'')
       (snd (init demo_env demo_user ''model-x'' 3 demo_world))) 7 = 1 \<and>
   map is_check_usage (trace (run demo_env demo_svc (Stream 4 ''q'')
       (snd (init demo_env demo_user ''model-x'' 3 demo_world)))) =
     [True, False, False, False, False, False] \<and>
   fst (init demo_env demo_user ''model-y'' 3 demo_world) = Inl ModelNotAllowed \<and>
   usage (snd (init demo_env demo_user ''model-y'' 3 demo_world)) 7 = 0"
proof -
  have h: "fst (init demo_env demo_user ''model-x'' 3 demo_world) = Inr demo_svc"
    by (simp add: init_defs demo_defs Let_def log_event_def)
  have h': "fst (init demo_env demo_user ''model-y'' 3 demo_world) = Inl ModelNotAllowed"
    by (simp add: init_defs demo_defs Let_def log_event_def)
  have len: "length (trace (run demo_env demo_svc (Stream 4 ''q'')
       (snd (init demo_env demo_user ''model-x'' 3 demo_world)))) = 6"
    by (simp add: init_defs run_defs demo_defs eval_nat_numeral)
  have t: "trace demo_world = []" "usage demo_world 7 = 0" "user_id demo_user = 7"
    "compute_cost demo_env (model_to_use demo_svc) (models_of demo_world 7) = 1"
    by (simp_all add: demo_defs)
  note ok = quota_resolution_once_before_generation [of demo_env demo_user "''model-x''" 3 demo_world demo_svc
      ModelNotAllowed demo_svc "Stream 4 ''q''" demo_world]
  note bad = quota_resolution_once_before_generation [of demo_env demo_user "''model-y''" 3 demo_world demo_svc
      ModelNotAllowed demo_svc "Stream 4 ''q''" demo_world]
  from ok h t
  obtain evs where e: "trace (run demo_env demo_svc (Stream 4 ''q'')
       (snd (init demo_env demo_user ''model-x'' 3 demo_world))) =
         Ev_check_usage (user_id demo_user) ''model-x'' # evs"
    and n: "\<forall>ev\<in>set evs. \<not> is_check_usage ev"
    by auto
  from len e have "length evs = 5" by simp
  then obtain a b c d f where "evs = [a, b, c, d, f]"
    by (auto simp: length_Suc_conv eval_nat_numeral)
  with e n have tr: "map is_check_usage (trace (run demo_env demo_svc (Stream 4 ''q'')
       (snd (init demo_env demo_user ''model-x'' 3 demo_world)))) =
     [True, False, False, False, False, False]" by simp
  from ok h t have u1: "usage (snd (init demo_env demo_user ''model-x'' 3 demo_world)) 7 = 1"
    "usage (run demo_env demo_svc (Stream 4 ''q'')
       (snd (init demo_env demo_user ''model-x'' 3 demo_world))) 7 = 1"
    by simp_all
  from bad h' t have u0: "usage (snd (init demo_env demo_user ''model-y'' 3 demo_world)) 7 = 0"
    by simp
  from h h' tr u1 u0 show ?thesis by simp
qed

text \<open>
  Claim C3 (model not allowed). For a model name absent from the user's allow-list,
  construction fails with \<open>ModelNotAllowed\<close> and the usage ledger of every user is as it
  was: the resolution raises before \<open>update_user_usage\<close> is reached. No turn is written
  either.
\<close>

theorem model_not_allowed_leaves_ledger:
  assumes "model_name \<notin> m_name ` set (models_of w (user_id user))"
  shows "fst (init e user model_name cid w) = Inl ModelNotAllowed \<and>
         usage (snd (init e user model_name cid w)) = usage w \<and>
         history (snd (init e user model_name cid w)) = history w"
proof -
  from assms have "find (\<lambda>m. m_name m = model_name) (models_of w (user_id user)) = None"
    by (auto simp: find_None_iff)
  then show ?thesis
    by (simp add: init_def check_and_update_user_usage_def find_model_and_generate_metadata_def
        Let_def)
qed

theorem model_not_allowed_leaves_ledger_witness:
  "''model-y'' \<notin> m_name ` set (models_of demo_world (user_id demo_user)) \<and>
   fst (init demo_env demo_user ''model-y'' 3 demo_world) = Inl ModelNotAllowed \<and>
   usage (snd (init demo_env demo_user ''model-y'' 3 demo_world)) = usage demo_world"
proof -
  have h: "''model-y'' \<notin> m_name ` set (models_of demo_world (user_id demo_user))"
    by (simp add: demo_defs)
  show ?thesis using h model_not_allowed_leaves_ledger [OF h, of demo_env 3] by simp
qed

text \<open>
  Claim C4 (streaming completeness). For a stream of non-terminal chunks followed by one
  terminal chunk, with the storage up and a consumer that pulls the final record, the
  run appends one turn, whose answer text is the concatenation of the non-terminal
  chunks' texts in order, or the terminal chunk's text when that concatenation is
  empty.
\<close>

theorem streaming_completeness:
  assumes "provider_stream e svc q w = map Chunk cs @ [Chunk t]"
    and "\<forall>c\<in>set cs. \<not> last_chunk c"
    and "last_chunk t"
    and "storage_up w"
    and "length cs < n"
  shows "\<exists>turn. history (snd (consume e svc n (generate_answer_stream svc q) w)) = history w @ [turn] \<and>
           ce_assistant turn =
             (if concat (map chunk_answer cs) = [] then chunk_answer t
              else concat (map chunk_answer cs))"
proof -
  obtain k where n: "n = length cs + Suc k"
    using assms(5) less_iff_Suc_add by auto
  let ?L0 = "fst (fst (start e svc q w))"
  let ?Lf = "after_terminal (after_chunks ?L0 cs) t"
  let ?wp = "(snd (start e svc q w))\<lparr>trace := trace w @ Ev_answer_astream q #
                  map (\<lambda>c. Ev_yield (partial_record (g_message_metadata ?L0) c)) cs\<rparr>"
  have "storage_up ?wp" using assms(4) by (simp add: start_facts)
  then obtain saved w1 where sa: "save_answer svc q (final_answer e svc ?Lf t) ?wp = (Inr saved, w1)"
    using save_answer_up by blast
  note sv = save_answer_Inr[OF sa]
  have fa: "pr_answer (final_answer e svc ?Lf t) =
      (if concat (map chunk_answer cs) = [] then chunk_answer t else concat (map chunk_answer cs))"
    by (simp add: final_answer_def full_answer_after_chunks start_facts)
  have "snd (consume e svc n (generate_answer_stream svc q) w) =
        log_event (Ev_yield (final_record e svc ?Lf t)) w1"
    unfolding n consume_wellformed[OF assms(1-3)] by (simp add: Let_def sa)
  then show ?thesis using sv(1,4) fa by (simp add: start_facts)
qed

theorem streaming_completeness_witness:
  "provider_stream demo_env demo_svc ''q'' demo_world =
     map Chunk [demo_chunk ''a'' False, demo_chunk ''b'' False] @ [Chunk (demo_chunk [] True)] \<and>
   \<not> last_chunk (demo_chunk ''a'' False) \<and> \<not> last_chunk (demo_chunk ''b'' False) \<and>
   last_chunk (demo_chunk [] True) \<and> storage_up demo_world \<and>
   length [demo_chunk ''a'' False, demo_chunk ''b'' False] < 3 \<and>
   map ce_assistant (history (snd (consume demo_env demo_svc 3
         (generate_answer_stream demo_svc ''q'') demo_world))) = [''ab'']"
proof -
  have h1: "provider_stream demo_env demo_svc ''q'' demo_world =
     map Chunk [demo_chunk ''a'' False, demo_chunk ''b'' False] @ [Chunk (demo_chunk [] True)]"
    by (simp add: provider_stream_def demo_env_def)
  have h2: "\<forall>c\<in>set [demo_chunk ''a'' False, demo_chunk ''b'' False]. \<not> last_chunk c"
    by (simp add: demo_chunk_def)
  have h3: "last_chunk (demo_chunk [] True)" by (simp add: demo_chunk_def)
  have h4: "storage_up demo_world" by (simp add: demo_world_def)
  have h5: "length [demo_chunk ''a'' False, demo_chunk ''b'' False] < 3" by simp
  have h6: "history demo_world = []" by (simp add: demo_world_def)
  from streaming_completeness [OF h1 h2 h3 h4 h5] h6
  have "map ce_assistant (history (snd (consume demo_env demo_svc 3
         (generate_answer_stream demo_svc ''q'') demo_world))) = [''ab'']"
    by (auto simp: demo_chunk_def)
  with h1 h2 h3 h4 h5 show ?thesis by simp
qed

text \<open>
  Claim C5, as amended. The record yielded for a non-terminal chunk carries that chunk's
  own text fragment and metadata, under the message metadata of the stream; it does not
  carry the accumulated buffer. Stated for the \<open>i\<close>-th pull on a stream that starts with
  the non-terminal chunks \<open>cs\<close>.
\<close>

theorem partial_record_carries_fragment:
  assumes "provider_stream e svc q w = map Chunk cs @ rest"
    and "\<forall>c\<in>set cs. \<not> last_chunk c"
    and "i < length cs"
    and "i < n"
  shows "fst (fst (consume e svc n (generate_answer_stream svc q) w)) ! i =
           Yielded (partial_record (g_message_metadata (fst (fst (start e svc q w)))) (cs ! i)) \<and>
         assistant_of (fst (fst (consume e svc n (generate_answer_stream svc q) w)) ! i) =
           Some (chunk_answer (cs ! i))"
proof -
  have m: "Suc i \<le> length cs" "Suc i \<le> n" "0 < n" using assms(3,4) by simp_all
  have "fst (fst (consume e svc n (generate_answer_stream svc q) w)) ! i =
           Yielded (partial_record (g_message_metadata (fst (fst (start e svc q w)))) (cs ! i))"
    unfolding consume_take[OF assms(1,2) m]
    using assms(3) by (simp add: nth_append split: prod.splits)
  then show ?thesis by (simp add: partial_record_def streamed_record_def)
qed

theorem partial_record_carries_fragment_witness:
  "provider_stream demo_env demo_svc ''q'' demo_world =
     map Chunk [demo_chunk ''a'' False, demo_chunk ''b'' False] @ [Chunk (demo_chunk [] True)] \<and>
   \<not> last_chunk (demo_chunk ''a'' False) \<and> \<not> last_chunk (demo_chunk ''b'' False) \<and>
   (1::nat) < length [demo_chunk ''a'' False, demo_chunk ''b'' False] \<and> (1::nat) < 2 \<and>
   assistant_of (fst (fst (consume demo_env demo_svc 2
     (generate_answer_stream demo_svc ''q'') demo_world)) ! 1) = Some ''b''"
proof -
  have h3: "(1::nat) < length [demo_chunk ''a'' False, demo_chunk ''b'' False]" by simp
  have h4: "(1::nat) < 2" by simp
  from partial_record_carries_fragment [OF demo_stream_eq demo_nonterminal h3 h4, THEN conjunct2]
  have "assistant_of (fst (fst (consume demo_env demo_svc 2
     (generate_answer_stream demo_svc ''q'') demo_world)) ! 1) = Some ''b''"
    by (simp add: demo_chunk_def)
  with demo_stream_eq demo_nonterminal h3 h4 show ?thesis by simp
qed

text \<open>
  Claim C5 as stated fails: on the chunks \<open>a\<close>, \<open>b\<close> the second record carries \<open>b\<close>, not
  the cumulative \<open>ab\<close>.
\<close>

theorem partial_record_not_cumulative:
  "map assistant_of (fst (fst (consume demo_env demo_svc 2
     (generate_answer_stream demo_svc ''q'') demo_world))) = [Some ''a'', Some ''b''] \<and>
   assistant_of (fst (fst (consume demo_env demo_svc 2
     (generate_answer_stream demo_svc ''q'') demo_world)) ! 1) \<noteq> Some (''a'' @ ''b'')"
  by (simp add: run_defs demo_defs eval_nat_numeral)

text \<open>
  Claim C6, as amended. On a stream of non-terminal chunks followed by one terminal
  chunk, the pull that processes the terminal chunk calls \<open>save_answer\<close> exactly once,
  with the question, the full answer and the final metadata (the terminal chunk's
  metadata with the model block set), and only after that call, when the storage
  accepted the turn, yields the final record, which carries the same full answer and
  final metadata. Persistence precedes the emission of the final record.
\<close>

theorem persistence_then_final_record:
  assumes "provider_stream e svc q w = map Chunk cs @ [Chunk t]"
    and "\<forall>c\<in>set cs. \<not> last_chunk c"
    and "last_chunk t"
    and "length cs < n"
  shows "\<exists>c fr.
           trace (snd (consume e svc n (generate_answer_stream svc q) w)) =
             trace w @ Ev_answer_astream q #
               map (\<lambda>c. Ev_yield (partial_record (g_message_metadata (fst (fst (start e svc q w)))) c)) cs @
               Ev_save_answer c # (if storage_up w then [Ev_yield (Data fr)] else []) \<and>
           cch_user_message c = q \<and>
           cch_assistant c =
             (if concat (map chunk_answer cs) = [] then chunk_answer t
              else concat (map chunk_answer cs)) \<and>
           cch_metadata c =
             model_dump ((chunk_metadata t)\<lparr>metadata_model := Some (model_block e svc)\<rparr>) \<and>
           out_assistant fr = cch_assistant c \<and>
           out_metadata fr = cch_metadata c \<and>
           (storage_up w \<longrightarrow>
              fst (fst (consume e svc n (generate_answer_stream svc q) w)) ! length cs =
                Yielded (Data fr))"
proof -
  obtain k where n: "n = length cs + Suc k"
    using assms(4) less_iff_Suc_add by auto
  let ?L0 = "fst (fst (start e svc q w))"
  let ?mm = "g_message_metadata ?L0"
  let ?Lf = "after_terminal (after_chunks ?L0 cs) t"
  let ?wp = "(snd (start e svc q w))\<lparr>trace := trace w @ Ev_answer_astream q #
                  map (\<lambda>c. Ev_yield (partial_record ?mm c)) cs\<rparr>"
  let ?c = "save_request svc q (final_answer e svc ?Lf t)"
  let ?fr = "streamed_record ?mm (g_full_answer ?Lf) (model_dump (final_metadata e svc ?Lf t))"
  have up: "storage_up ?wp = storage_up w" by (simp add: start_facts)
  have fm: "final_metadata e svc ?Lf t =
      (chunk_metadata t)\<lparr>metadata_model := Some (model_block e svc)\<rparr>"
    by (simp add: final_metadata_def model_block_def start_facts)
  have fa: "g_full_answer ?Lf =
      (if concat (map chunk_answer cs) = [] then chunk_answer t else concat (map chunk_answer cs))"
    by (simp add: full_answer_after_chunks start_facts)
  have req: "cch_user_message ?c = q" "cch_assistant ?c = g_full_answer ?Lf"
    "cch_metadata ?c = model_dump (final_metadata e svc ?Lf t)"
    by (simp_all add: save_request_def final_answer_def)
  have rec: "out_assistant ?fr = g_full_answer ?Lf"
    "out_metadata ?fr = model_dump (final_metadata e svc ?Lf t)"
    by (simp_all add: streamed_record_def)
  have fr: "final_record e svc ?Lf t = Data ?fr"
    by (simp add: final_record_def)
  obtain res w1 where sa: "save_answer svc q (final_answer e svc ?Lf t) ?wp = (res, w1)"
    by (metis prod.exhaust)
  have run: "trace (snd (consume e svc n (generate_answer_stream svc q) w)) =
             trace w @ Ev_answer_astream q # map (\<lambda>c. Ev_yield (partial_record ?mm c)) cs @
               Ev_save_answer ?c # (if storage_up w then [Ev_yield (Data ?fr)] else []) \<and>
           (storage_up w \<longrightarrow>
              fst (fst (consume e svc n (generate_answer_stream svc q) w)) ! length cs =
                Yielded (Data ?fr))"
  proof (cases res)
    case (Inl err)
    with sa save_answer_up[of ?wp svc q "final_answer e svc ?Lf t"] up
    have down: "\<not> storage_up w" by auto
    from sa Inl save_answer_Inl(2)[of svc q "final_answer e svc ?Lf t" ?wp err w1] down
    show ?thesis
      unfolding n consume_wellformed[OF assms(1-3)] by (simp add: Let_def)
  next
    case (Inr saved)
    with sa save_answer_down[of ?wp svc q "final_answer e svc ?Lf t"] up
    have isup: "storage_up w" by auto
    from sa Inr save_answer_Inr(2)[of svc q "final_answer e svc ?Lf t" ?wp saved w1] isup
    show ?thesis
      unfolding n consume_wellformed[OF assms(1-3)] by (simp add: Let_def fr nth_append)
  qed
  show ?thesis
    apply (rule exI[of _ ?c], rule exI[of _ ?fr])
    using run req rec fm fa by simp
qed

theorem persistence_then_final_record_witness:
  "provider_stream demo_env demo_svc ''q'' demo_world =
     map Chunk [demo_chunk ''a'' False, demo_chunk ''b'' False] @ [Chunk (demo_chunk [] True)] \<and>
   \<not> last_chunk (demo_chunk ''a'' False) \<and> \<not> last_chunk (demo_chunk ''b'' False) \<and>
   last_chunk (demo_chunk [] True) \<and>
   length [demo_chunk ''a'' False, demo_chunk ''b'' False] < 3 \<and>
   storage_up demo_world \<and>
   map is_save_answer (trace (snd (consume demo_env demo_svc 3
     (generate_answer_stream demo_svc ''q'') demo_world))) = [False, False, False, True, False]"
proof -
  have h3: "last_chunk (demo_chunk [] True)" by (simp add: demo_chunk_def)
  have h4: "length [demo_chunk ''a'' False, demo_chunk ''b'' False] < 3" by simp
  have h5: "storage_up demo_world" "trace demo_world = []" by (simp_all add: demo_world_def)
  from persistence_then_final_record [OF demo_stream_eq demo_nonterminal h3 h4] h5
  have "map is_save_answer (trace (snd (consume demo_env demo_svc 3
     (generate_answer_stream demo_svc ''q'') demo_world))) = [False, False, False, True, False]"
    by auto
  with demo_stream_eq demo_nonterminal h3 h4 h5 show ?thesis by simp
qed

text \<open>
  Claim C6 as stated fails: in the run on the chunks \<open>a\<close>, \<open>b\<close> and an empty terminal
  chunk, the effects are the call of the endpoint, two yields, the call of
  \<open>save_answer\<close> and then the yield of the final record (with the full answer \<open>ab\<close>):
  the final record is emitted after persistence, not before.
\<close>

theorem final_record_not_before_persistence:
  "map is_save_answer (trace (snd (consume demo_env demo_svc 3
     (generate_answer_stream demo_svc ''q'') demo_world))) = [False, False, False, True, False] \<and>
   map is_yield (trace (snd (consume demo_env demo_svc 3
     (generate_answer_stream demo_svc ''q'') demo_world))) = [False, True, True, False, True] \<and>
   map assistant_of (fst (fst (consume demo_env demo_svc 3
     (generate_answer_stream demo_svc ''q'') demo_world))) = [Some ''a'', Some ''b'', Some ''ab'']"
  by (simp add: run_defs demo_defs eval_nat_numeral)

text \<open>
  Claim C7 (deterministic synthetic id). Take two calls, each of either path, on any two
  instances, in any two worlds and with any two sets of collaborators that share the
  function \<open>generate_uuid_from_string\<close>. If the instances' model names are equal, every
  brain id in a turn that the first call persisted equals every brain id in a turn that
  the second call persisted, and it is \<open>generate_uuid_from_string\<close> of the model name.
\<close>

theorem synthetic_id_deterministic:
  assumes "generate_uuid_from_string e1 = generate_uuid_from_string e2"
    and "m_name (model_to_use svc1) = m_name (model_to_use svc2)"
    and "i \<in> set (brain_ids (drop (length (history w1)) (history (run e1 svc1 c1 w1))))"
    and "j \<in> set (brain_ids (drop (length (history w2)) (history (run e2 svc2 c2 w2))))"
  shows "i = j \<and> i = generate_uuid_from_string e1 (m_name (model_to_use svc1))"
  using assms new_brain_ids[of w1 e1 svc1 c1] new_brain_ids[of w2 e2 svc2 c2] by auto

theorem synthetic_id_deterministic_witness:
  "generate_uuid_from_string demo_env = generate_uuid_from_string (demo_env\<lparr>ollama_api_base_url := Some ''http://localhost''\<rparr>) \<and>
   m_name (model_to_use demo_svc) = m_name (model_to_use (demo_svc\<lparr>chat_id := 4\<rparr>)) \<and>
   ''id-model-x'' \<in> set (brain_ids (drop (length (history demo_world))
       (history (run demo_env demo_svc (Sync ''q'') demo_world)))) \<and>
   ''id-model-x'' \<in> set (brain_ids (drop (length (history (demo_world\<lparr>clock := 9\<rparr>)))
       (history (run (demo_env\<lparr>ollama_api_base_url := Some ''http://localhost''\<rparr>)
          (demo_svc\<lparr>chat_id := 4\<rparr>) (Stream 3 ''why'') (demo_world\<lparr>clock := 9\<rparr>))))) \<and>
   ''id-model-x'' = generate_uuid_from_string demo_env (m_name (model_to_use demo_svc))"
proof -
  let ?e2 = "demo_env\<lparr>ollama_api_base_url := Some ''http://localhost''\<rparr>"
  let ?svc2 = "demo_svc\<lparr>chat_id := 4\<rparr>"
  let ?w2 = "demo_world\<lparr>clock := 9\<rparr>"
  have h1: "generate_uuid_from_string demo_env = generate_uuid_from_string ?e2" by simp
  have h2: "m_name (model_to_use demo_svc) = m_name (model_to_use ?svc2)" by simp
  have h3: "''id-model-x'' \<in> set (brain_ids (drop (length (history demo_world))
       (history (run demo_env demo_svc (Sync ''q'') demo_world))))"
    by (simp add: run_defs demo_defs)
  have h4: "''id-model-x'' \<in> set (brain_ids (drop (length (history ?w2))
       (history (run ?e2 ?svc2 (Stream 3 ''why'') ?w2))))"
    by (simp add: run_defs demo_defs eval_nat_numeral)
  from synthetic_id_deterministic [OF h1 h2 h3 h4] h1 h2 h3 h4 show ?thesis by blast
qed

text \<open>
  Claim C8, as amended. A synchronous call that succeeds appends one turn and returns
  that turn's metadata. When the model's response carries metadata, the turn's metadata
  is that metadata with the descriptive model block set (the enrichment runs before
  \<open>save_answer\<close>); when the response carries none, the turn's metadata is the empty
  dictionary.
\<close>

theorem sync_metadata_enriched_when_present:
  assumes "answer e (build_llm e svc) q
             (build_chat_history e svc (get_chat_history (chat_id svc) w)) = Inr resp"
    and "\<not> isl (fst (generate_answer e svc q w))"
  shows "\<exists>t out. history (snd (generate_answer e svc q w)) = history w @ [t] \<and>
           fst (generate_answer e svc q w) = Inr out \<and> out_metadata out = ce_metadata t \<and>
           ce_metadata t =
             (case pr_metadata resp of
                Some md \<Rightarrow> model_dump (md\<lparr>metadata_model := Some (model_block e svc)\<rparr>)
              | None \<Rightarrow> EmptyDict)"
proof -
  obtain r w' where g: "generate_answer e svc q w = (r, w')" by (metis prod.exhaust)
  from g show ?thesis
  proof (cases rule: generate_answer_cases)
    case (Saved resp' t out)
    with assms(1) have "resp' = resp" by simp
    with Saved g show ?thesis
      by (auto simp: enriched_def split: option.splits)
  qed (use assms g in auto)
qed

theorem sync_metadata_enriched_when_present_witness:
  "answer demo_env (build_llm demo_env demo_svc) ''q''
     (build_chat_history demo_env demo_svc (get_chat_history (chat_id demo_svc) demo_world)) =
     Inr \<lparr>pr_answer = ''4'', pr_metadata = Some \<lparr>provider_fields = [], metadata_model = None\<rparr>\<rparr> \<and>
   \<not> isl (fst (generate_answer demo_env demo_svc ''q'' demo_world)) \<and>
   map ce_metadata (history (snd (generate_answer demo_env demo_svc ''q'' demo_world))) =
     [Dump \<lparr>provider_fields = [], metadata_model = Some (model_block demo_env demo_svc)\<rparr>] \<and>
   clm_name (model_block demo_env demo_svc) = ''model-x'' \<and>
   clm_brain_id (model_block demo_env demo_svc) = ''id-model-x''"
proof -
  have h1: "answer demo_env (build_llm demo_env demo_svc) ''q''
     (build_chat_history demo_env demo_svc (get_chat_history (chat_id demo_svc) demo_world)) =
     Inr \<lparr>pr_answer = ''4'', pr_metadata = Some \<lparr>provider_fields = [], metadata_model = None\<rparr>\<rparr>"
    by (simp add: demo_env_def)
  have h2: "\<not> isl (fst (generate_answer demo_env demo_svc ''q'' demo_world))"
    by (simp add: run_defs demo_defs)
  have h: "history demo_world = []" by (simp add: demo_world_def)
  have b: "clm_name (model_block demo_env demo_svc) = ''model-x''"
    "clm_brain_id (model_block demo_env demo_svc) = ''id-model-x''"
    by (simp_all add: model_block_def demo_defs)
  from sync_metadata_enriched_when_present [OF h1 h2] h
  have "map ce_metadata (history (snd (generate_answer demo_env demo_svc ''q'' demo_world))) =
     [Dump \<lparr>provider_fields = [], metadata_model = Some (model_block demo_env demo_svc)\<rparr>]"
    by (auto simp: model_dump_def)
  with h1 h2 b show ?thesis by blast
qed

text \<open>
  Claim C8 as stated fails: with a response that carries no metadata the call succeeds
  and the persisted turn's metadata is the empty dictionary, with no model block.
\<close>

theorem sync_without_metadata_persists_empty:
  "\<not> isl (fst (generate_answer bare_env demo_svc ''q'' demo_world)) \<and>
   map ce_metadata (history (snd (generate_answer bare_env demo_svc ''q'' demo_world))) =
     [EmptyDict]"
  by (simp add: run_defs demo_defs bare_env_def)

text \<open>
  Claim C9 (cancellation). On a stream that starts with the non-terminal chunks \<open>cs\<close>, a
  consumer that pulls at most \<open>length cs\<close> times, and so stops before the final record,
  receives the partial records of the first chunks only; no turn is appended and
  \<open>save_answer\<close> is not called.
\<close>

theorem cancelled_stream_persists_nothing:
  assumes "provider_stream e svc q w = map Chunk cs @ rest"
    and "\<forall>c\<in>set cs. \<not> last_chunk c"
    and "n \<le> length cs"
  shows "history (snd (consume e svc n (generate_answer_stream svc q) w)) = history w \<and>
         filter is_save_answer (trace (snd (consume e svc n (generate_answer_stream svc q) w))) =
           filter is_save_answer (trace w) \<and>
         fst (fst (consume e svc n (generate_answer_stream svc q) w)) =
           map (\<lambda>c. Yielded (partial_record (g_message_metadata (fst (fst (start e svc q w)))) c))
             (take n cs)"
proof (cases n)
  case 0
  then show ?thesis by (simp add: generate_answer_stream_def)
next
  case (Suc n')
  then have pos: "0 < n" by simp
  have "filter is_save_answer
          (map (\<lambda>c. Ev_yield (partial_record (g_message_metadata (fst (fst (start e svc q w)))) c))
             (take n cs)) = []"
    by (simp add: filter_empty_conv)
  then show ?thesis
    unfolding consume_take[OF assms(1,2) assms(3) order_refl pos]
    by (simp add: start_facts)
qed

theorem cancelled_stream_persists_nothing_witness:
  "provider_stream demo_env demo_svc ''q'' demo_world =
     map Chunk [demo_chunk ''a'' False, demo_chunk ''b'' False] @ [Chunk (demo_chunk [] True)] \<and>
   \<not> last_chunk (demo_chunk ''a'' False) \<and> \<not> last_chunk (demo_chunk ''b'' False) \<and>
   (2::nat) \<le> length [demo_chunk ''a'' False, demo_chunk ''b'' False] \<and>
   history (snd (consume demo_env demo_svc 2
     (generate_answer_stream demo_svc ''q'') demo_world)) = [] \<and>
   length (fst (fst (consume demo_env demo_svc 2
     (generate_answer_stream demo_svc ''q'') demo_world))) = 2"
proof -
  have h3: "(2::nat) \<le> length [demo_chunk ''a'' False, demo_chunk ''b'' False]" by simp
  have h: "history demo_world = []" by (simp add: demo_world_def)
  from cancelled_stream_persists_nothing [OF demo_stream_eq demo_nonterminal h3] h
  have "history (snd (consume demo_env demo_svc 2
     (generate_answer_stream demo_svc ''q'') demo_world)) = [] \<and>
   length (fst (fst (consume demo_env demo_svc 2
     (generate_answer_stream demo_svc ''q'') demo_world))) = 2"
    by simp
  with demo_stream_eq demo_nonterminal h3 show ?thesis by simp
qed

text \<open>
  Claim C10 (empty stream). When the provider's stream has no chunk at all, the first
  pull raises \<open>UnboundLocalError\<close> and ends the generator: the only effect is the call of
  the endpoint, so no record is yielded, \<open>save_answer\<close> is not reached and the history is
  as it was.
\<close>

theorem empty_stream_raises_unbound:
  assumes "provider_stream e svc q w = []"
  shows "consume e svc (Suc n) (generate_answer_stream svc q) w =
           (([Raised UnboundLocalError], Finished), snd (start e svc q w)) \<and>
         history (snd (start e svc q w)) = history w \<and>
         trace (snd (start e svc q w)) = trace w @ [Ev_answer_astream q]"
proof -
  have "anext e svc (Created q) w = ((Raised UnboundLocalError, Finished), snd (start e svc q w))"
    using assms start_facts(1,9)[of e svc q w]
    by (simp add: anext_Created finalize_None)
  then show ?thesis
    by (simp add: generate_answer_stream_def start_facts)
qed

theorem empty_stream_raises_unbound_witness:
  "provider_stream (demo_env\<lparr>answer_astream := (\<lambda>cfg q h. [])\<rparr>) demo_svc ''q'' demo_world = [] \<and>
   fst (consume (demo_env\<lparr>answer_astream := (\<lambda>cfg q h. [])\<rparr>) demo_svc 3
          (generate_answer_stream demo_svc ''q'') demo_world) = ([Raised UnboundLocalError], Finished) \<and>
   history (snd (consume (demo_env\<lparr>answer_astream := (\<lambda>cfg q h. [])\<rparr>) demo_svc 3
          (generate_answer_stream demo_svc ''q'') demo_world)) = []"
proof -
  let ?e = "demo_env\<lparr>answer_astream := (\<lambda>cfg q h. [])\<rparr>"
  have h: "provider_stream ?e demo_svc ''q'' demo_world = []"
    by (simp add: provider_stream_def)
  have n: "(3::nat) = Suc 2" by simp
  show ?thesis using h empty_stream_raises_unbound [OF h, of 2] unfolding n by (simp add: demo_world_def)
qed

end
